theory Spec2Isabelle
  imports Complex_Main
begin

section \<open>JavaScript strings\<close>

text \<open>
  Strings are character lists. \<open>toLowerCase\<close> lowers the letters A to Z and leaves every
  other character as it is; \<open>js_includes s k\<close> is \<open>s.includes(k)\<close> and \<open>startsWith s p\<close> is
  \<open>s.startsWith(p)\<close>. The keyword of three Chinese characters is kept as its UTF-8 bytes.
\<close>

definition lower_char :: "char \<Rightarrow> char" where
  "lower_char c =
     (case map_of (zip ''ABCDEFGHIJKLMNOPQRSTUVWXYZ'' ''abcdefghijklmnopqrstuvwxyz'') c of
        Some d \<Rightarrow> d
      | None \<Rightarrow> c)"

definition toLowerCase :: "string \<Rightarrow> string" where
  "toLowerCase s = map lower_char s"

fun startsWith :: "string \<Rightarrow> string \<Rightarrow> bool" where
  "startsWith s [] = True"
| "startsWith [] (k # ks) = False"
| "startsWith (c # cs) (k # ks) = (c = k \<and> startsWith cs ks)"

fun js_includes :: "string \<Rightarrow> string \<Rightarrow> bool" where
  "js_includes [] k = (k = [])"
| "js_includes (c # cs) k = (startsWith (c # cs) k \<or> js_includes cs k)"

definition yanzhengma_utf8 :: string where
  "yanzhengma_utf8 =
     [char_of (0xE9::nat), char_of (0xAA::nat), char_of (0x8C::nat),
      char_of (0xE8::nat), char_of (0xAF::nat), char_of (0x81::nat),
      char_of (0xE7::nat), char_of (0xA0::nat), char_of (0x81::nat)]"

section \<open>The document\<close>

text \<open>
  A document is a tree of nodes. Each node carries the attributes, the computed style
  and the bounding rectangle the detector reads. An element is a node together with
  its path from the root and its parent element, so that \<open>parentElement\<close> is a field.
\<close>

datatype tagName = Img | Canvas | Svg | Input | OtherTag

text \<open>
  What the property \<open>className\<close> of an element holds. On an HTML element it is the string of
  the class attribute. On an SVG element it is an \<open>SVGAnimatedString\<close> object, which holds
  the class attribute as its \<open>baseVal\<close>; the object is truthy, it has no method
  \<open>toLowerCase\<close>, and its \<open>toString()\<close> is the one of \<open>Object\<close>.
\<close>

datatype classValue = DOMString string | SVGAnimatedString (baseVal: string)

record rect =
  rect_top :: real
  rect_left :: real
  rect_width :: real
  rect_height :: real

definition rect_right :: "rect \<Rightarrow> real" where
  "rect_right r = rect_left r + rect_width r"

definition rect_bottom :: "rect \<Rightarrow> real" where
  "rect_bottom r = rect_top r + rect_height r"

record attributes =
  tag :: tagName
  className :: classValue
  id_attr :: string
  src_attr :: string
  alt_attr :: string
  name_attr :: string
  placeholder :: string
  type_attr :: "string option"
  boundingClientRect :: rect
  style_display :: string
  style_visibility :: string
  style_opacity :: string

datatype node = Node (attrs: attributes) (childNodes: "node list")

datatype element = Element (el_path: "nat list") (el_node: node) (parentElement: "element option")

definition el_attrs :: "element \<Rightarrow> attributes" where
  "el_attrs e = attrs (el_node e)"

definition getBoundingClientRect :: "element \<Rightarrow> rect" where
  "getBoundingClientRect e = boundingClientRect (el_attrs e)"

text \<open>
  \<open>descendants e\<close> lists the elements below \<open>e\<close> in document order, \<open>e\<close> itself left out,
  as \<open>e.querySelectorAll\<close> sees them; \<open>documentElements\<close> lists every element of the
  document, the root first, as \<open>document.querySelectorAll\<close> sees them.
\<close>

function descendants :: "element \<Rightarrow> element list"
  and children_from :: "element \<Rightarrow> nat \<Rightarrow> node list \<Rightarrow> element list" where
  "descendants e = children_from e 0 (childNodes (el_node e))"
| "children_from p i [] = []"
| "children_from p i (c # cs) =
     Element (el_path p @ [i]) c (Some p) # descendants (Element (el_path p @ [i]) c (Some p))
       @ children_from p (Suc i) cs"
  by pat_completeness auto
termination
  by (relation "measure (\<lambda>x. case x of
          Inl e \<Rightarrow> 2 * size (el_node e) + 1
        | Inr (p, i, cs) \<Rightarrow> 2 * size_list size cs)")
     (auto, case_tac "el_node e", auto)

definition documentElement :: "node \<Rightarrow> element" where
  "documentElement doc = Element [] doc None"

definition documentElements :: "node \<Rightarrow> element list" where
  "documentElements doc = documentElement doc # descendants (documentElement doc)"

section \<open>The detector\<close>

text \<open>
  The detector of the content script. The fields \<open>id_attr\<close>, \<open>src_attr\<close>, \<open>alt_attr\<close>,
  \<open>name_attr\<close> and \<open>placeholder\<close> hold the strings the script reads from the element's
  properties of these names, the empty string where the property is absent or empty
  (both are falsy); \<open>className\<close> holds the value of the property of that name.
\<close>

definition classKeywords :: "string list" where
  "classKeywords =
     [''captcha'', ''verify'', ''code'', ''vcode'', ''imgcode'',
      ''checkcode'', ''seccode'', ''authcode'', ''validcode'',
      ''yzm'', ''yanzhengma'', yanzhengma_utf8]"

definition idKeywords :: "string list" where
  "idKeywords =
     [''captcha'', ''verify'', ''code'', ''vcode'', ''imgcode'',
      ''checkcode'', ''seccode'', ''authcode'', ''validcode'',
      ''yzm'', ''captchaImg'', ''codeImg'']"

definition inputKeywords :: "string list" where
  "inputKeywords =
     [''captcha'', ''verify'', ''code'', ''vcode'',
      ''checkcode'', ''seccode'', ''authcode'', ''validcode'',
      ''yzm'', ''yanzhengma'', yanzhengma_utf8]"

definition minWidth :: real where "minWidth = 50"
definition maxWidth :: real where "maxWidth = 300"
definition minHeight :: real where "minHeight = 20"
definition maxHeight :: real where "maxHeight = 100"

definition isCaptchaSize :: "real \<Rightarrow> real \<Rightarrow> bool" where
  "isCaptchaSize width height =
     (width \<ge> minWidth \<and> width \<le> maxWidth \<and> height \<ge> minHeight \<and> height \<le> maxHeight)"

definition isVisible :: "element \<Rightarrow> bool" where
  "isVisible e =
     (style_display (el_attrs e) \<noteq> ''none'' \<and> style_visibility (el_attrs e) \<noteq> ''hidden'' \<and>
      style_opacity (el_attrs e) \<noteq> ''0'' \<and>
      rect_width (getBoundingClientRect e) > 0 \<and> rect_height (getBoundingClientRect e) > 0)"

text \<open>
  \<open>(element.className || '').toString()\<close>: a string is itself, the empty one included; an
  \<open>SVGAnimatedString\<close> is an object, so it is kept by \<open>||\<close> and printed by
  \<open>Object.prototype.toString\<close>.
\<close>

definition classNameToString :: "classValue \<Rightarrow> string" where
  "classNameToString v =
     (case v of
        DOMString s \<Rightarrow> s
      | SVGAnimatedString b \<Rightarrow> ''[object SVGAnimatedString]'')"

definition matchesKeywords :: "element \<Rightarrow> bool" where
  "matchesKeywords e =
     (list_ex (\<lambda>k. js_includes (toLowerCase (classNameToString (className (el_attrs e)))) k) classKeywords \<or>
      list_ex (\<lambda>k. js_includes (toLowerCase (id_attr (el_attrs e))) k) idKeywords)"

definition matchesKeywordsInText :: "string \<Rightarrow> bool" where
  "matchesKeywordsInText t =
     (if t = [] then False else list_ex (\<lambda>k. js_includes (toLowerCase t) k) classKeywords)"

definition srcContainsKeywords :: "string \<Rightarrow> bool" where
  "srcContainsKeywords s =
     (if s = [] then False else list_ex (\<lambda>k. js_includes (toLowerCase s) k) classKeywords)"

text \<open>The loop \<open>while (parent && depth < 3)\<close> of \<open>parentContainsKeywords\<close>.\<close>

fun parentLoop :: "element option \<Rightarrow> nat \<Rightarrow> bool" where
  "parentLoop None depth = False"
| "parentLoop (Some (Element p n par)) depth =
     (if depth < 3
      then (if matchesKeywords (Element p n par) then True else parentLoop par (Suc depth))
      else False)"

definition parentContainsKeywords :: "element \<Rightarrow> bool" where
  "parentContainsKeywords e = parentLoop (parentElement e) 0"

definition isCaptchaInputByName :: "element \<Rightarrow> bool" where
  "isCaptchaInputByName i =
     list_ex (\<lambda>k.
        js_includes (toLowerCase (name_attr (el_attrs i))) k \<or>
        js_includes (toLowerCase (id_attr (el_attrs i))) k \<or>
        js_includes (toLowerCase (placeholder (el_attrs i))) k \<or>
        js_includes (toLowerCase (classNameToString (className (el_attrs i)))) k) inputKeywords"

text \<open>
  The selector \<open>input[type="text"], input:not([type])\<close>. In an HTML document the value of the
  attribute \<open>type\<close> is compared without regard to the case of the letters A to Z.
\<close>

definition isTextInput :: "element \<Rightarrow> bool" where
  "isTextInput e =
     (tag (el_attrs e) = Input \<and>
      (case type_attr (el_attrs e) of
         Some t \<Rightarrow> toLowerCase t = ''text''
       | None \<Rightarrow> True))"

definition findCaptchaInput :: "element \<Rightarrow> element option" where
  "findCaptchaInput container = find isCaptchaInputByName (filter isTextInput (descendants container))"

text \<open>The loop \<open>while (parent && depth < 5)\<close> of \<open>findRelatedInput\<close>.\<close>

fun findInParents :: "element option \<Rightarrow> nat \<Rightarrow> element option" where
  "findInParents None depth = None"
| "findInParents (Some (Element p n par)) depth =
     (if depth < 5
      then (case findCaptchaInput (Element p n par) of
              Some i \<Rightarrow> Some i
            | None \<Rightarrow> findInParents par (Suc depth))
      else None)"

definition rightOf :: "rect \<Rightarrow> rect \<Rightarrow> bool" where
  "rightOf inputRect r =
     (rect_left inputRect > rect_right r \<and> rect_left inputRect - rect_right r < 150 \<and>
      \<bar>rect_top inputRect - rect_top r\<bar> < 50)"

definition below :: "rect \<Rightarrow> rect \<Rightarrow> bool" where
  "below inputRect r =
     (rect_top inputRect > rect_bottom r \<and> rect_top inputRect - rect_bottom r < 100 \<and>
      \<bar>rect_left inputRect - rect_left r\<bar> < 100)"

definition findRelatedInput :: "node \<Rightarrow> element \<Rightarrow> element option" where
  "findRelatedInput doc e =
     (case findInParents (parentElement e) 0 of
        Some i \<Rightarrow> Some i
      | None \<Rightarrow>
          find (\<lambda>i. rightOf (getBoundingClientRect i) (getBoundingClientRect e) \<or>
                    below (getBoundingClientRect i) (getBoundingClientRect e))
            (filter isTextInput (documentElements doc)))"

definition hasNearbyInput :: "node \<Rightarrow> element \<Rightarrow> bool" where
  "hasNearbyInput doc e = (findRelatedInput doc e \<noteq> None)"

definition isLikelyCaptcha :: "node \<Rightarrow> element \<Rightarrow> bool" where
  "isLikelyCaptcha doc img =
     (if \<not> isCaptchaSize (rect_width (getBoundingClientRect img)) (rect_height (getBoundingClientRect img))
      then False
      else if \<not> isVisible img then False
      else if matchesKeywords img then True
      else if srcContainsKeywords (src_attr (el_attrs img)) then True
      else if matchesKeywordsInText (alt_attr (el_attrs img)) then True
      else if parentContainsKeywords img then True
      else if hasNearbyInput doc img then True
      else False)"

definition isLikelyCanvasCaptcha :: "node \<Rightarrow> element \<Rightarrow> bool" where
  "isLikelyCanvasCaptcha doc c =
     (if \<not> isCaptchaSize (rect_width (getBoundingClientRect c)) (rect_height (getBoundingClientRect c))
      then False
      else if \<not> isVisible c then False
      else if matchesKeywords c then True
      else if parentContainsKeywords c then True
      else if hasNearbyInput doc c then True
      else False)"

definition isLikelySvgCaptcha :: "node \<Rightarrow> element \<Rightarrow> bool" where
  "isLikelySvgCaptcha doc s =
     (if \<not> isCaptchaSize (rect_width (getBoundingClientRect s)) (rect_height (getBoundingClientRect s))
      then False
      else if \<not> isVisible s then False
      else if matchesKeywords s then True
      else if parentContainsKeywords s then True
      else if hasNearbyInput doc s then True
      else False)"

text \<open>\<open>calculateConfidence\<close>: the score grows by one weight after the other and is capped.\<close>

definition calculateConfidence :: "node \<Rightarrow> element \<Rightarrow> int" where
  "calculateConfidence doc e =
     (let score = 0;
          score = (if matchesKeywords e then score + 30 else score);
          score = (if src_attr (el_attrs e) \<noteq> [] \<and> srcContainsKeywords (src_attr (el_attrs e))
                   then score + 20 else score);
          score = (if parentContainsKeywords e then score + 15 else score);
          score = (if findRelatedInput doc e \<noteq> None then score + 25 else score);
          score = (if isCaptchaSize (rect_width (getBoundingClientRect e))
                        (rect_height (getBoundingClientRect e))
                   then score + 10 else score)
      in min score 100)"

datatype captchaType = ImageType | CanvasType | SvgType

text \<open>
  The identifiers \<open>captcha-i\<close>, \<open>captcha-canvas-i\<close> and \<open>captcha-svg-i\<close>, with the index of
  the element among the elements of its tag, and \<open>rule-selected\<close>.
\<close>

datatype captchaId = CaptchaId nat | CaptchaCanvasId nat | CaptchaSvgId nat | RuleSelected

record captchaInfo =
  c_type :: captchaType
  c_element :: element
  c_src :: string
  c_rect :: rect
  confidence :: int
  inputElement :: "element option"
  c_id :: captchaId

record detector =
  detectedCaptchas :: "captchaInfo list"

definition querySelectorAll :: "node \<Rightarrow> tagName \<Rightarrow> element list" where
  "querySelectorAll doc t = filter (\<lambda>e. tag (el_attrs e) = t) (documentElements doc)"

definition push :: "captchaInfo \<Rightarrow> detector \<Rightarrow> detector" where
  "push c d = d\<lparr>detectedCaptchas := detectedCaptchas d @ [c]\<rparr>"

fun scanImages_forEach :: "node \<Rightarrow> nat \<Rightarrow> element list \<Rightarrow> detector \<Rightarrow> detector" where
  "scanImages_forEach doc index [] d = d"
| "scanImages_forEach doc index (img # rest) d =
     scanImages_forEach doc (Suc index) rest
       (if isLikelyCaptcha doc img
        then push \<lparr>c_type = ImageType, c_element = img, c_src = src_attr (el_attrs img),
                   c_rect = getBoundingClientRect img, confidence = calculateConfidence doc img,
                   inputElement = findRelatedInput doc img, c_id = CaptchaId index\<rparr> d
        else d)"

fun scanCanvas_forEach :: "node \<Rightarrow> nat \<Rightarrow> element list \<Rightarrow> detector \<Rightarrow> detector" where
  "scanCanvas_forEach doc index [] d = d"
| "scanCanvas_forEach doc index (c # rest) d =
     scanCanvas_forEach doc (Suc index) rest
       (if isLikelyCanvasCaptcha doc c
        then push \<lparr>c_type = CanvasType, c_element = c, c_src = [],
                   c_rect = getBoundingClientRect c, confidence = calculateConfidence doc c,
                   inputElement = findRelatedInput doc c, c_id = CaptchaCanvasId index\<rparr> d
        else d)"

fun scanSvg_forEach :: "node \<Rightarrow> nat \<Rightarrow> element list \<Rightarrow> detector \<Rightarrow> detector" where
  "scanSvg_forEach doc index [] d = d"
| "scanSvg_forEach doc index (s # rest) d =
     scanSvg_forEach doc (Suc index) rest
       (if isLikelySvgCaptcha doc s
        then push \<lparr>c_type = SvgType, c_element = s, c_src = [],
                   c_rect = getBoundingClientRect s, confidence = calculateConfidence doc s,
                   inputElement = findRelatedInput doc s, c_id = CaptchaSvgId index\<rparr> d
        else d)"

definition scanImages :: "node \<Rightarrow> detector \<Rightarrow> detector" where
  "scanImages doc d = scanImages_forEach doc 0 (querySelectorAll doc Img) d"

definition scanCanvas :: "node \<Rightarrow> detector \<Rightarrow> detector" where
  "scanCanvas doc d = scanCanvas_forEach doc 0 (querySelectorAll doc Canvas) d"

definition scanSvg :: "node \<Rightarrow> detector \<Rightarrow> detector" where
  "scanSvg doc d = scanSvg_forEach doc 0 (querySelectorAll doc Svg) d"

definition scan :: "node \<Rightarrow> detector \<Rightarrow> detector" where
  "scan doc d = scanSvg doc (scanCanvas doc (scanImages doc (d\<lparr>detectedCaptchas := []\<rparr>)))"

text \<open>
  \<open>getMostLikelyCaptcha\<close>: \<open>reduce\<close> without an initial value starts from the first
  candidate and keeps the best so far unless the current one is strictly better.
\<close>

definition better :: "captchaInfo \<Rightarrow> captchaInfo \<Rightarrow> captchaInfo" where
  "better best current = (if confidence current > confidence best then current else best)"

definition getMostLikelyCaptcha :: "detector \<Rightarrow> captchaInfo option" where
  "getMostLikelyCaptcha d =
     (case detectedCaptchas d of
        [] \<Rightarrow> None
      | c # cs \<Rightarrow> Some (foldl better c cs))"

section \<open>The keyword test of the detector module\<close>

text \<open>
  \<open>matchesKeywords\<close> of the detector module reads \<open>(element.className || '').toLowerCase()\<close>,
  with no \<open>toString()\<close> before it. On an \<open>SVGAnimatedString\<close> the call of \<open>toLowerCase\<close>
  throws a \<open>TypeError\<close>, before the id is read.
\<close>

datatype typeError = NotAFunction string

definition module_matchesKeywords :: "element \<Rightarrow> typeError + bool" where
  "module_matchesKeywords e =
     (case className (el_attrs e) of
        SVGAnimatedString b \<Rightarrow> Inl (NotAFunction ''toLowerCase'')
      | DOMString s \<Rightarrow>
          Inr (list_ex (\<lambda>k. js_includes (toLowerCase s) k) classKeywords \<or>
               list_ex (\<lambda>k. js_includes (toLowerCase (id_attr (el_attrs e))) k) idKeywords))"

section \<open>The confidence score as the specification words it\<close>

text \<open>
  The five signals of a candidate and their weights, as the specification lists them:
  a keyword in the class or the id of the element itself 30, a keyword in its source
  URL 20, a keyword in the class or the id of one of its first three ancestors 15, a
  linked input 25, a size within the envelope 10. The class of an element is the string
  of its class attribute, whatever the kind of the element; the linked input and the
  size are those the candidate records. These definitions follow the specification, to
  be compared with \<open>calculateConfidence\<close>.
\<close>

definition classAttribute :: "element \<Rightarrow> string" where
  "classAttribute e = (case className (el_attrs e) of DOMString s \<Rightarrow> s | SVGAnimatedString b \<Rightarrow> b)"

definition carriesKeyword :: "string list \<Rightarrow> string \<Rightarrow> bool" where
  "carriesKeyword keywords s = list_ex (\<lambda>k. js_includes (toLowerCase s) k) keywords"

definition ownKeywordSignal :: "element \<Rightarrow> bool" where
  "ownKeywordSignal e =
     (carriesKeyword classKeywords (classAttribute e) \<or> carriesKeyword idKeywords (id_attr (el_attrs e)))"

fun ancestors :: "element \<Rightarrow> element list" where
  "ancestors (Element p n None) = []"
| "ancestors (Element p n (Some parent)) = parent # ancestors parent"

definition ancestorKeywordSignal :: "element \<Rightarrow> bool" where
  "ancestorKeywordSignal e = list_ex ownKeywordSignal (take 3 (ancestors e))"

definition withinEnvelope :: "rect \<Rightarrow> bool" where
  "withinEnvelope r =
     (50 \<le> rect_width r \<and> rect_width r \<le> 300 \<and> 20 \<le> rect_height r \<and> rect_height r \<le> 100)"

definition signalSum :: "captchaInfo \<Rightarrow> int" where
  "signalSum c =
     (if ownKeywordSignal (c_element c) then 30 else 0) +
     (if carriesKeyword classKeywords (src_attr (el_attrs (c_element c))) then 20 else 0) +
     (if ancestorKeywordSignal (c_element c) then 15 else 0) +
     (if inputElement c \<noteq> None then 25 else 0) +
     (if withinEnvelope (c_rect c) then 10 else 0)"

text \<open>The elements whose \<open>className\<close> is a string: the HTML elements.\<close>

definition hasStringClassName :: "element \<Rightarrow> bool" where
  "hasStringClassName e = (case className (el_attrs e) of DOMString s \<Rightarrow> True | SVGAnimatedString b \<Rightarrow> False)"

text \<open>What every candidate pushed by a scan satisfies.\<close>

definition scanned :: "node \<Rightarrow> captchaInfo \<Rightarrow> bool" where
  "scanned doc c =
     (confidence c = calculateConfidence doc (c_element c) \<and>
      inputElement c = findRelatedInput doc (c_element c) \<and>
      c_rect c = getBoundingClientRect (c_element c) \<and>
      isCaptchaSize (rect_width (getBoundingClientRect (c_element c)))
        (rect_height (getBoundingClientRect (c_element c))) \<and>
      isVisible (c_element c))"

section \<open>Example documents\<close>

text \<open>
  The scenario of the specification: a visible image of 120 by 40 pixels with the id
  \<open>captchaImg\<close> and the source \<open>https://example.com/cap.png\<close>, and ten pixels to
  its right a text input named \<open>vcode\<close>, both children of the root element.
\<close>

definition default_attrs :: attributes where
  "default_attrs =
     \<lparr>tag = OtherTag, className = DOMString [], id_attr = [], src_attr = [], alt_attr = [],
      name_attr = [], placeholder = [], type_attr = None,
      boundingClientRect = \<lparr>rect_top = 0, rect_left = 0, rect_width = 800, rect_height = 600\<rparr>,
      style_display = ''block'', style_visibility = ''visible'', style_opacity = ''1''\<rparr>"

definition scenario_img :: attributes where
  "scenario_img =
     default_attrs\<lparr>tag := Img, id_attr := ''captchaImg'',
       src_attr := ''https://example.com/cap.png'',
       boundingClientRect := \<lparr>rect_top = 100, rect_left = 20, rect_width = 120, rect_height = 40\<rparr>\<rparr>"

definition scenario_input :: attributes where
  "scenario_input =
     default_attrs\<lparr>tag := Input, name_attr := ''vcode'',
       boundingClientRect := \<lparr>rect_top = 100, rect_left = 150, rect_width = 100, rect_height = 30\<rparr>\<rparr>"

definition scenario_doc :: node where
  "scenario_doc = Node default_attrs [Node scenario_img [], Node scenario_input []]"

definition scenario_input_element :: element where
  "scenario_input_element = Element [1] (Node scenario_input []) (Some (documentElement scenario_doc))"

definition fresh_detector :: detector where
  "fresh_detector = \<lparr>detectedCaptchas = []\<rparr>"

text \<open>
  An image of 400 by 40 pixels whose class, id, source and alternative text all carry a
  keyword, inside a root whose class carries one, beside the input of the scenario.
\<close>

definition banner_img :: attributes where
  "banner_img =
     default_attrs\<lparr>tag := Img, className := DOMString ''captcha'', id_attr := ''captcha'',
       src_attr := ''https://example.com/captcha.png'', alt_attr := ''captcha'',
       boundingClientRect := \<lparr>rect_top = 100, rect_left = 20, rect_width = 400, rect_height = 40\<rparr>\<rparr>"

definition banner_doc :: node where
  "banner_doc =
     Node (default_attrs\<lparr>className := DOMString ''captcha-box''\<rparr>) [Node banner_img [], Node scenario_input []]"

definition banner_element :: element where
  "banner_element = Element [0] (Node banner_img []) (Some (documentElement banner_doc))"

text \<open>
  An inline \<open>svg\<close> element of 120 by 40 pixels with the class \<open>captcha\<close> and no id, and ten
  pixels to its right a text input with no name, id, placeholder or class, both children
  of the root element.
\<close>

definition svg_captcha :: attributes where
  "svg_captcha =
     default_attrs\<lparr>tag := Svg, className := SVGAnimatedString ''captcha'',
       boundingClientRect := \<lparr>rect_top = 100, rect_left = 20, rect_width = 120, rect_height = 40\<rparr>\<rparr>"

definition plain_input :: attributes where
  "plain_input =
     default_attrs\<lparr>tag := Input, type_attr := Some ''text'',
       boundingClientRect := \<lparr>rect_top = 100, rect_left = 150, rect_width = 100, rect_height = 30\<rparr>\<rparr>"

definition svg_doc :: node where
  "svg_doc = Node default_attrs [Node svg_captcha [], Node plain_input []]"

definition svg_element :: element where
  "svg_element = Element [0] (Node svg_captcha []) (Some (documentElement svg_doc))"

text \<open>Twice the image of the scenario, before its input.\<close>

definition tie_doc :: node where
  "tie_doc = Node default_attrs [Node scenario_img [], Node scenario_img [], Node scenario_input []]"

section \<open>The fill engine\<close>

text \<open>
  The text to fill in is a JavaScript string: a sequence of UTF-16 code units. The loop
  \<open>for (const char of text)\<close> walks it with the string iterator, which yields code points:
  a high surrogate followed by a low surrogate is one character of two code units, every
  other code unit is a character of its own. \<open>ascii\<close> turns a literal of this theory into
  such a string.
\<close>

type_synonym codeUnit = nat

type_synonym jsString = "codeUnit list"

definition isHighSurrogate :: "codeUnit \<Rightarrow> bool" where
  "isHighSurrogate u = (0xD800 \<le> u \<and> u \<le> 0xDBFF)"

definition isLowSurrogate :: "codeUnit \<Rightarrow> bool" where
  "isLowSurrogate u = (0xDC00 \<le> u \<and> u \<le> 0xDFFF)"

fun stringIterator :: "jsString \<Rightarrow> jsString list" where
  "stringIterator [] = []"
| "stringIterator [u] = [[u]]"
| "stringIterator (u # v # rest) =
     (if isHighSurrogate u \<and> isLowSurrogate v
      then [u, v] # stringIterator rest
      else [u] # stringIterator (v # rest))"

definition ascii :: "string \<Rightarrow> jsString" where
  "ascii s = map of_char s"

text \<open>
  \<open>AutoFill\<close>, in the content script and in the fill module. The effects on the page are
  recorded in order: the events dispatched on the input, the awaited delays, the
  highlight, the confirmation dialog of the module and what \<open>submitForm\<close> does.
  \<open>random k\<close> is the result of the \<open>k\<close>-th call of \<open>Math.random()\<close>.
\<close>

datatype effect =
    Focus
  | Dispatched string
  | Key string jsString
  | Delay real
  | Highlighted
  | ConfirmationShown jsString
  | FormDispatched string
  | FormSubmitted
  | Clicked

text \<open>
  The page around the input: the enclosing form, if there is one, with whether a handler
  of the page cancels its submit event; and whether a submit control is found in the
  scope \<open>submitForm\<close> searches.
\<close>

record page =
  form_cancels :: "bool option"
  submitBtn :: bool

record fillOptions =
  simulate :: "bool option"
  autoSubmit :: "bool option"

record fillState =
  input_value :: jsString
  effects :: "effect list"
  lastFilledInput :: bool
  draws :: nat

definition emit :: "effect \<Rightarrow> fillState \<Rightarrow> fillState" where
  "emit e s = s\<lparr>effects := effects s @ [e]\<rparr>"

definition dispatchEvent :: "string \<Rightarrow> fillState \<Rightarrow> fillState" where
  "dispatchEvent eventType s = emit (Dispatched eventType) s"

definition dispatchKeyEvent :: "string \<Rightarrow> jsString \<Rightarrow> fillState \<Rightarrow> fillState" where
  "dispatchKeyEvent eventType k s = emit (Key eventType k) s"

definition delay :: "real \<Rightarrow> fillState \<Rightarrow> fillState" where
  "delay ms s = emit (Delay ms) s"

text \<open>The body of the loop of \<open>simulateTyping\<close>, for one character.\<close>

definition typeChar :: "(nat \<Rightarrow> real) \<Rightarrow> jsString \<Rightarrow> fillState \<Rightarrow> fillState" where
  "typeChar random c s =
     (let s = dispatchKeyEvent ''keydown'' c s;
          s = s\<lparr>input_value := input_value s @ c\<rparr>;
          s = dispatchEvent ''input'' s;
          s = dispatchKeyEvent ''keyup'' c s;
          s = delay (50 + random (draws s) * 100) (s\<lparr>draws := Suc (draws s)\<rparr>)
      in s)"

fun typingLoop :: "(nat \<Rightarrow> real) \<Rightarrow> jsString list \<Rightarrow> fillState \<Rightarrow> fillState" where
  "typingLoop random [] s = s"
| "typingLoop random (c # cs) s = typingLoop random cs (typeChar random c s)"

text \<open>\<open>simulateTyping\<close> is the same text in the content script and in the module.\<close>

definition simulateTyping :: "(nat \<Rightarrow> real) \<Rightarrow> jsString \<Rightarrow> fillState \<Rightarrow> fillState" where
  "simulateTyping random str s =
     dispatchEvent ''blur'' (dispatchEvent ''change'' (typingLoop random (stringIterator str) s))"

text \<open>\<open>submitForm\<close> of the content script: with no form and no submit control it presses Enter.\<close>

definition submitForm :: "page \<Rightarrow> fillState \<Rightarrow> fillState" where
  "submitForm pg s =
     (case form_cancels pg of
        Some prevented \<Rightarrow>
          (let s = emit (FormDispatched ''submit'') s
           in if \<not> prevented then emit FormSubmitted s else s)
      | None \<Rightarrow>
          if submitBtn pg then emit Clicked s
          else dispatchKeyEvent ''keyup'' (ascii ''Enter'')
                 (dispatchKeyEvent ''keypress'' (ascii ''Enter'')
                   (dispatchKeyEvent ''keydown'' (ascii ''Enter'') s)))"

text \<open>
  \<open>fill\<close> of the content script: \<open>present\<close> tells whether \<open>inputElement\<close> is an element; when
  it is not, the error thrown is caught and \<open>false\<close> is returned. The options default to
  \<open>simulate = true\<close> and \<open>autoSubmit = false\<close>.
\<close>

definition fill :: "(nat \<Rightarrow> real) \<Rightarrow> page \<Rightarrow> bool \<Rightarrow> jsString \<Rightarrow> fillOptions \<Rightarrow> fillState \<Rightarrow> bool \<times> fillState" where
  "fill random pg present str opts s =
     (if \<not> present then (False, s)
      else
        let s = emit Focus s;
            s = s\<lparr>input_value := []\<rparr>;
            s = dispatchEvent ''input'' s;
            s = (if (case simulate opts of None \<Rightarrow> True | Some b \<Rightarrow> b)
                 then simulateTyping random str s
                 else dispatchEvent ''change'' (dispatchEvent ''input'' (s\<lparr>input_value := str\<rparr>)));
            s = s\<lparr>lastFilledInput := True\<rparr>;
            s = emit Highlighted s;
            s = (if (case autoSubmit opts of None \<Rightarrow> False | Some b \<Rightarrow> b) then submitForm pg s else s)
        in (True, s))"

text \<open>
  The fill module. Its \<open>submitForm\<close> only logs a warning when it finds neither a form nor a
  submit control. Its \<open>fill\<close> has a third option, \<open>confirmBeforeSubmit\<close>, true by default:
  with auto-submit on it shows a dialog first and submits when the user confirms. The
  user may cancel, or never answer: then \<open>fill\<close> does not return, which is the result
  \<open>None\<close>.
\<close>

definition module_submitForm :: "page \<Rightarrow> fillState \<Rightarrow> fillState" where
  "module_submitForm pg s =
     (case form_cancels pg of
        Some prevented \<Rightarrow>
          (let s = emit (FormDispatched ''submit'') s
           in if \<not> prevented then emit FormSubmitted s else s)
      | None \<Rightarrow>
          if submitBtn pg then emit Clicked s else s)"

record moduleFillOptions = fillOptions +
  confirmBeforeSubmit :: "bool option"

datatype confirmation = Confirmed | Cancelled | Unanswered

definition module_fill ::
  "(nat \<Rightarrow> real) \<Rightarrow> page \<Rightarrow> confirmation \<Rightarrow> bool \<Rightarrow> jsString \<Rightarrow> moduleFillOptions \<Rightarrow> fillState
     \<Rightarrow> bool option \<times> fillState" where
  "module_fill random pg answer present str opts s =
     (if \<not> present then (Some False, s)
      else
        let s = emit Focus s;
            s = s\<lparr>input_value := []\<rparr>;
            s = dispatchEvent ''input'' s;
            s = (if (case simulate opts of None \<Rightarrow> True | Some b \<Rightarrow> b)
                 then simulateTyping random str s
                 else dispatchEvent ''change'' (dispatchEvent ''input'' (s\<lparr>input_value := str\<rparr>)));
            s = s\<lparr>lastFilledInput := True\<rparr>;
            s = emit Highlighted s
        in if (case autoSubmit opts of None \<Rightarrow> False | Some b \<Rightarrow> b)
           then if (case confirmBeforeSubmit opts of None \<Rightarrow> True | Some b \<Rightarrow> b)
                then (let s = emit (ConfirmationShown str) s
                      in case answer of
                           Confirmed \<Rightarrow> (Some True, module_submitForm pg s)
                         | Cancelled \<Rightarrow> (Some True, s)
                         | Unanswered \<Rightarrow> (None, s))
                else (Some True, module_submitForm pg s)
           else (Some True, s))"

text \<open>
  The effects of typing as the specification words them: for each character a key-down,
  the input notification, a key-up and a delay of 50 plus 100 times the random draw.
\<close>

fun typed :: "(nat \<Rightarrow> real) \<Rightarrow> nat \<Rightarrow> jsString list \<Rightarrow> effect list" where
  "typed random k [] = []"
| "typed random k (c # cs) =
     [Key ''keydown'' c, Dispatched ''input'', Key ''keyup'' c, Delay (50 + random k * 100)]
       @ typed random (Suc k) cs"

definition isKeyDown :: "effect \<Rightarrow> bool" where
  "isKeyDown e = (case e of Key t k \<Rightarrow> t = ''keydown'' | _ \<Rightarrow> False)"

definition isKeyUp :: "effect \<Rightarrow> bool" where
  "isKeyUp e = (case e of Key t k \<Rightarrow> t = ''keyup'' | _ \<Rightarrow> False)"

definition isDelay :: "effect \<Rightarrow> bool" where
  "isDelay e = (case e of Delay d \<Rightarrow> True | _ \<Rightarrow> False)"

definition delay_ms :: "effect \<Rightarrow> real" where
  "delay_ms e = (case e of Delay d \<Rightarrow> d | _ \<Rightarrow> 0)"

text \<open>What \<open>submitForm\<close> adds, and what the module adds after the highlight.\<close>

definition submitEffects :: "page \<Rightarrow> effect list" where
  "submitEffects pg = effects (submitForm pg \<lparr>input_value = [], effects = [], lastFilledInput = False, draws = 0\<rparr>)"

definition module_submitEffects :: "page \<Rightarrow> effect list" where
  "module_submitEffects pg =
     effects (module_submitForm pg \<lparr>input_value = [], effects = [], lastFilledInput = False, draws = 0\<rparr>)"

definition module_afterHighlight :: "page \<Rightarrow> confirmation \<Rightarrow> jsString \<Rightarrow> moduleFillOptions \<Rightarrow> effect list" where
  "module_afterHighlight pg answer str opts =
     (if autoSubmit opts = Some True
      then if confirmBeforeSubmit opts = Some False then module_submitEffects pg
           else ConfirmationShown str # (if answer = Confirmed then module_submitEffects pg else [])
      else [])"

text \<open>The effects a call of \<open>fill\<close> adds to those recorded before it.\<close>

definition newEffects :: "(nat \<Rightarrow> real) \<Rightarrow> page \<Rightarrow> jsString \<Rightarrow> fillOptions \<Rightarrow> fillState \<Rightarrow> effect list" where
  "newEffects random pg str opts s = drop (length (effects s)) (effects (snd (fill random pg True str opts s)))"

definition module_newEffects ::
  "(nat \<Rightarrow> real) \<Rightarrow> page \<Rightarrow> confirmation \<Rightarrow> jsString \<Rightarrow> moduleFillOptions \<Rightarrow> fillState \<Rightarrow> effect list" where
  "module_newEffects random pg answer str opts s =
     drop (length (effects s)) (effects (snd (module_fill random pg answer True str opts s)))"

text \<open>
  Examples: an input holding an old value, random draws of one half, a page with neither
  a form nor a submit control, the options of the two versions, and a text of one
  character outside the basic plane, which is two code units.
\<close>

definition idle :: fillState where
  "idle = \<lparr>input_value = ascii ''old'', effects = [], lastFilledInput = False, draws = 0\<rparr>"

definition half :: "nat \<Rightarrow> real" where
  "half k = 1 / 2"

definition bare_page :: page where
  "bare_page = \<lparr>form_cancels = None, submitBtn = False\<rparr>"

definition typing_options :: fillOptions where
  "typing_options = \<lparr>simulate = Some True, autoSubmit = Some False\<rparr>"

definition submitting_options :: fillOptions where
  "submitting_options = \<lparr>simulate = Some True, autoSubmit = Some True\<rparr>"

definition module_submitting_options :: moduleFillOptions where
  "module_submitting_options =
     \<lparr>simulate = Some True, autoSubmit = Some True, confirmBeforeSubmit = Some False\<rparr>"

definition grinning_face :: jsString where
  "grinning_face = [0xD83D, 0xDE00]"

section \<open>Provider adapters\<close>

text \<open>
  A JavaScript object with string values is a list of pairs in insertion order.
  \<open>setProperty\<close> is the assignment \<open>obj[k] = v\<close>; \<open>objectAssign\<close> is \<open>Object.assign\<close>,
  which assigns the properties of the source one after the other.
\<close>

type_synonym headers = "(string \<times> string) list"

fun setProperty :: "string \<Rightarrow> string \<Rightarrow> headers \<Rightarrow> headers" where
  "setProperty k v [] = [(k, v)]"
| "setProperty k v ((k', v') # rest) =
     (if k' = k then (k, v) # rest else (k', v') # setProperty k v rest)"

definition objectAssign :: "headers \<Rightarrow> headers \<Rightarrow> headers" where
  "objectAssign target source = fold (\<lambda>(k, v). setProperty k v) source target"

text \<open>
  A provider configuration. A field of option type is \<open>None\<close> where the object has no
  such property; \<open>apiKey\<close> and \<open>customPrompt\<close> are empty where they are absent (both
  are falsy). The key is kept as the stored functions hand it over, decrypted.
\<close>

record config =
  cfg_id :: "string option"
  cfg_name :: string
  cfg_type :: "string option"
  baseUrl :: "string option"
  modelName :: "string option"
  apiKey :: string
  maxTokens :: "nat option"
  temperature :: "real option"
  customHeaders :: "headers option"
  customPrompt :: string

datatype adapterKind = OpenAICompatibleAdapter | GeminiAdapter | ClaudeAdapter

record adapter =
  adapterKind :: adapterKind
  adapterConfig :: config

text \<open>\<open>replace(/\/+$/, '')\<close>: the trailing slashes are dropped.\<close>

definition stripTrailingSlashes :: "string \<Rightarrow> string" where
  "stripTrailingSlashes s = rev (dropWhile (\<lambda>c. c = CHR ''/'') (rev s))"

definition orDefault :: "'a option \<Rightarrow> 'a \<Rightarrow> 'a" where
  "orDefault x d = (case x of Some v \<Rightarrow> v | None \<Rightarrow> d)"

text \<open>The constructors: the defaults, overridden by the configuration, and the base URL normalised.\<close>

definition newOpenAICompatibleAdapter :: "config \<Rightarrow> adapter" where
  "newOpenAICompatibleAdapter c =
     \<lparr>adapterKind = OpenAICompatibleAdapter,
      adapterConfig = c\<lparr>
        baseUrl := Some (stripTrailingSlashes (orDefault (baseUrl c) ''https://api.openai.com/v1'')),
        modelName := Some (orDefault (modelName c) ''gpt-4o''),
        maxTokens := Some (orDefault (maxTokens c) 100),
        temperature := Some (orDefault (temperature c) (1 / 10))\<rparr>\<rparr>"

definition newGeminiAdapter :: "config \<Rightarrow> adapter" where
  "newGeminiAdapter c =
     \<lparr>adapterKind = GeminiAdapter,
      adapterConfig = c\<lparr>
        baseUrl := Some (stripTrailingSlashes
          (orDefault (baseUrl c) ''https://generativelanguage.googleapis.com/v1beta'')),
        modelName := Some (orDefault (modelName c) ''gemini-1.5-flash'')\<rparr>\<rparr>"

definition newClaudeAdapter :: "config \<Rightarrow> adapter" where
  "newClaudeAdapter c =
     \<lparr>adapterKind = ClaudeAdapter,
      adapterConfig = c\<lparr>
        baseUrl := Some (stripTrailingSlashes (orDefault (baseUrl c) ''https://api.anthropic.com'')),
        modelName := Some (orDefault (modelName c) ''claude-3-5-sonnet-20241022''),
        maxTokens := Some (orDefault (maxTokens c) 1024)\<rparr>\<rparr>"

text \<open>\<open>buildHeaders\<close> of the OpenAI-compatible adapter and of the Claude adapter.\<close>

definition openai_buildHeaders :: "config \<Rightarrow> headers" where
  "openai_buildHeaders c =
     (let headers = [(''Content-Type'', ''application/json'')];
          headers = (if apiKey c \<noteq> [] then setProperty ''Authorization'' (''Bearer '' @ apiKey c) headers
                     else headers);
          headers = (case customHeaders c of Some ch \<Rightarrow> objectAssign headers ch | None \<Rightarrow> headers)
      in headers)"

definition claude_buildHeaders :: "config \<Rightarrow> headers" where
  "claude_buildHeaders c =
     (let headers = [(''Content-Type'', ''application/json''), (''anthropic-version'', ''2023-06-01'')];
          headers = (if apiKey c \<noteq> [] then setProperty ''x-api-key'' (apiKey c) headers else headers);
          headers = (case customHeaders c of Some ch \<Rightarrow> objectAssign headers ch | None \<Rightarrow> headers)
      in headers)"

text \<open>The Gemini adapter has no \<open>buildHeaders\<close>: its requests carry this literal object.\<close>

definition gemini_headers :: "config \<Rightarrow> headers" where
  "gemini_headers c = [(''Content-Type'', ''application/json'')]"

text \<open>
  The request an adapter's \<open>recognize\<close> hands to \<open>fetch\<close>: the URL, the headers, the model
  named in the body (the Gemini body names none) and the prompt. A template literal
  prints an absent property as \<open>undefined\<close>.
\<close>

datatype prompt = DEFAULT_RECOGNITION_PROMPT | CustomPrompt string

record request =
  url :: string
  req_headers :: headers
  req_model :: "string option"
  req_prompt :: prompt
  req_image :: string

definition interpolate :: "string option \<Rightarrow> string" where
  "interpolate x = orDefault x ''undefined''"

definition adapter_request :: "adapter \<Rightarrow> string \<Rightarrow> prompt \<Rightarrow> request" where
  "adapter_request a imageData p =
     (case adapterKind a of
        OpenAICompatibleAdapter \<Rightarrow>
          \<lparr>url = interpolate (baseUrl (adapterConfig a)) @ ''/chat/completions'',
           req_headers = openai_buildHeaders (adapterConfig a),
           req_model = modelName (adapterConfig a), req_prompt = p, req_image = imageData\<rparr>
      | GeminiAdapter \<Rightarrow>
          \<lparr>url = interpolate (baseUrl (adapterConfig a)) @ ''/models/'' @
                 interpolate (modelName (adapterConfig a)) @ '':generateContent?key='' @
                 apiKey (adapterConfig a),
           req_headers = gemini_headers (adapterConfig a),
           req_model = None, req_prompt = p, req_image = imageData\<rparr>
      | ClaudeAdapter \<Rightarrow>
          \<lparr>url = interpolate (baseUrl (adapterConfig a)) @ ''/v1/messages'',
           req_headers = claude_buildHeaders (adapterConfig a),
           req_model = modelName (adapterConfig a), req_prompt = p, req_image = imageData\<rparr>)"

section \<open>The adapter cache of the dispatcher\<close>

text \<open>
  \<open>ApiManager.adapters\<close> is a map from keys to adapters. The key of a configuration is
  \<open>config.id || config.type\<close>: the id unless it is absent or empty.
\<close>

record manager =
  adapters :: "string option \<rightharpoonup> adapter"

definition adapterKey :: "config \<Rightarrow> string option" where
  "adapterKey c =
     (case cfg_id c of
        Some i \<Rightarrow> if i \<noteq> [] then Some i else cfg_type c
      | None \<Rightarrow> cfg_type c)"

definition newAdapter :: "config \<Rightarrow> adapter" where
  "newAdapter c =
     (if cfg_type c = Some ''gemini'' then newGeminiAdapter c
      else if cfg_type c = Some ''claude'' then newClaudeAdapter c
      else newOpenAICompatibleAdapter c)"

definition getAdapter :: "config \<Rightarrow> manager \<Rightarrow> adapter \<times> manager" where
  "getAdapter c m =
     (case adapters m (adapterKey c) of
        None \<Rightarrow> (newAdapter c, m\<lparr>adapters := (adapters m)(adapterKey c \<mapsto> newAdapter c)\<rparr>)
      | Some a \<Rightarrow> (a, m))"

definition updateAdapter :: "string \<Rightarrow> config \<Rightarrow> manager \<Rightarrow> manager" where
  "updateAdapter configId newConfig m =
     (let m = (if adapters m (Some configId) \<noteq> None
               then m\<lparr>adapters := (adapters m)(Some configId := None)\<rparr> else m)
      in snd (getAdapter (newConfig\<lparr>cfg_id := Some configId\<rparr>) m))"

section \<open>The store and the dispatcher\<close>

text \<open>
  The values a \<open>throw\<close> can carry here are \<open>null\<close> and error objects; an error object is
  kept as its message. The messages the dispatcher builds itself are constructors:
  \<open>NotConfigured\<close> for the message of the missing configuration, \<open>RequestTimeout t\<close>
  for the message of a timeout of \<open>t\<close> milliseconds, and \<open>CannotReadMessageOfNull\<close> for
  the message of the TypeError that reading \<open>message\<close> of \<open>null\<close> raises.
\<close>

datatype message = Str string | NotConfigured | RequestTimeout nat | CannotReadMessageOfNull

datatype thrown = Null | Error message

datatype outcome =
    Success (out_text: string) (out_elapsed: nat) (out_attempt: nat)
  | Failure (out_error: message) (out_elapsed: nat)

record settings =
  timeout :: nat
  retryCount :: int
  historyRetention :: int

record stats =
  totalRequests :: nat
  successCount :: nat
  failCount :: nat
  totalTime :: nat

record historyRecord =
  h_configName :: string
  h_result :: message
  h_success :: bool
  h_elapsed :: nat
  h_timestamp :: nat

text \<open>
  What the adapter's promise does once called: it resolves with a text or rejects with a
  message after so many milliseconds, or it stays pending.
\<close>

datatype reply = Resolves nat string | Rejects nat string | Pending

datatype action =
    Fetch request
  | Sleep nat
  | SetStats stats
  | SetHistory "historyRecord list"

text \<open>
  The world of one coordinator: the dispatcher's cache, the contents of the extension's
  local store, the clock, the replies the provider will give to the calls to come, and
  the actions taken so far. \<open>get_lastError\<close> and \<open>set_lastError\<close> are what
  \<open>chrome.runtime.lastError\<close> holds after a read and after a write of the store; the
  functions \<open>get\<close> and \<open>set\<close> reject with it. Reading and writing the store takes no time.
\<close>

record world =
  api :: manager
  api_configs :: "config list"
  active_config_id :: "string option"
  stored_settings :: settings
  recognition_history :: "historyRecord list"
  statistics :: "stats option"
  get_lastError :: "string option"
  set_lastError :: "string option"
  now :: nat
  replies :: "reply list"
  actions :: "action list"

definition getActiveConfigId :: "world \<Rightarrow> thrown + string option" where
  "getActiveConfigId w =
     (case get_lastError w of
        Some m \<Rightarrow> Inl (Error (Str m))
      | None \<Rightarrow> Inr (case active_config_id w of
                      Some i \<Rightarrow> if i \<noteq> [] then Some i else None
                    | None \<Rightarrow> None))"

definition getDecryptedApiConfigs :: "world \<Rightarrow> thrown + config list" where
  "getDecryptedApiConfigs w =
     (case get_lastError w of
        Some m \<Rightarrow> Inl (Error (Str m))
      | None \<Rightarrow> Inr (api_configs w))"

definition getActiveConfig :: "world \<Rightarrow> thrown + config option" where
  "getActiveConfig w =
     (case getActiveConfigId w of
        Inl e \<Rightarrow> Inl e
      | Inr None \<Rightarrow> Inr None
      | Inr (Some activeId) \<Rightarrow>
          (case getDecryptedApiConfigs w of
             Inl e \<Rightarrow> Inl e
           | Inr configs \<Rightarrow> Inr (find (\<lambda>c. cfg_id c = Some activeId) configs)))"

definition getSettings :: "world \<Rightarrow> thrown + settings" where
  "getSettings w =
     (case get_lastError w of
        Some m \<Rightarrow> Inl (Error (Str m))
      | None \<Rightarrow> Inr (stored_settings w))"

definition getStats :: "world \<Rightarrow> thrown + stats" where
  "getStats w =
     (case get_lastError w of
        Some m \<Rightarrow> Inl (Error (Str m))
      | None \<Rightarrow> Inr (orDefault (statistics w)
                     \<lparr>totalRequests = 0, successCount = 0, failCount = 0, totalTime = 0\<rparr>))"

definition setStats :: "stats \<Rightarrow> world \<Rightarrow> (thrown + unit) \<times> world" where
  "setStats st w =
     (case set_lastError w of
        Some m \<Rightarrow> (Inl (Error (Str m)), w)
      | None \<Rightarrow> (Inr (), w\<lparr>statistics := Some st, actions := actions w @ [SetStats st]\<rparr>))"

text \<open>The counters of \<open>updateStats\<close>, one request further.\<close>

definition counted :: "bool \<Rightarrow> nat \<Rightarrow> stats \<Rightarrow> stats" where
  "counted ok time st =
     (let st = st\<lparr>totalRequests := totalRequests st + 1\<rparr>;
          st = (if ok then st\<lparr>successCount := successCount st + 1\<rparr>
                else st\<lparr>failCount := failCount st + 1\<rparr>);
          st = st\<lparr>totalTime := totalTime st + time\<rparr>
      in st)"

definition updateStats :: "bool \<Rightarrow> nat \<Rightarrow> world \<Rightarrow> (thrown + unit) \<times> world" where
  "updateStats ok time w =
     (case getStats w of
        Inl e \<Rightarrow> (Inl e, w)
      | Inr st \<Rightarrow> setStats (counted ok time st) w)"

definition getHistory :: "nat \<Rightarrow> world \<Rightarrow> thrown + historyRecord list" where
  "getHistory limit w =
     (case get_lastError w of
        Some m \<Rightarrow> Inl (Error (Str m))
      | None \<Rightarrow> Inr (take limit (recognition_history w)))"

definition setHistory :: "historyRecord list \<Rightarrow> world \<Rightarrow> (thrown + unit) \<times> world" where
  "setHistory h w =
     (case set_lastError w of
        Some m \<Rightarrow> (Inl (Error (Str m)), w)
      | None \<Rightarrow> (Inr (), w\<lparr>recognition_history := h, actions := actions w @ [SetHistory h]\<rparr>))"

text \<open>
  \<open>addHistory\<close>: the record gets the time as its timestamp (its random id is left out),
  goes to the front, the records not younger than the retention are dropped and at most
  500 are kept.
\<close>

definition retained :: "settings \<Rightarrow> nat \<Rightarrow> historyRecord list \<Rightarrow> historyRecord list" where
  "retained s time history =
     (let retentionMs = historyRetention s * 24 * 60 * 60 * 1000;
          cutoff = int time - retentionMs;
          filteredHistory = filter (\<lambda>r. int (h_timestamp r) > cutoff) history
      in take 500 filteredHistory)"

definition addHistory :: "string \<Rightarrow> message \<Rightarrow> bool \<Rightarrow> nat \<Rightarrow> world \<Rightarrow> (thrown + unit) \<times> world" where
  "addHistory name res ok el w =
     (case getHistory 999 w of
        Inl e \<Rightarrow> (Inl e, w)
      | Inr history \<Rightarrow>
          (let newRecord = \<lparr>h_configName = name, h_result = res, h_success = ok, h_elapsed = el,
                            h_timestamp = now w\<rparr>;
               history = newRecord # history
           in case getSettings w of
                Inl e \<Rightarrow> (Inl e, w)
              | Inr s \<Rightarrow> setHistory (retained s (now w) history) w))"

text \<open>
  \<open>executeWithTimeout\<close> around the adapter's \<open>recognize\<close>: the request goes out, the next
  reply of the provider is taken (none left: the promise stays pending), and the timer
  of \<open>t\<close> milliseconds wins unless the promise settles before it.
\<close>

definition nextReply :: "world \<Rightarrow> reply \<times> world" where
  "nextReply w =
     (case replies w of
        [] \<Rightarrow> (Pending, w)
      | r # rs \<Rightarrow> (r, w\<lparr>replies := rs\<rparr>))"

definition advance :: "nat \<Rightarrow> world \<Rightarrow> world" where
  "advance ms w = w\<lparr>now := now w + ms\<rparr>"

definition executeWithTimeout :: "adapter \<Rightarrow> string \<Rightarrow> prompt \<Rightarrow> nat \<Rightarrow> world \<Rightarrow> (thrown + string) \<times> world" where
  "executeWithTimeout a imageData p t w =
     (let w = w\<lparr>actions := actions w @ [Fetch (adapter_request a imageData p)]\<rparr>;
          (r, w) = nextReply w
      in case r of
           Resolves d txt \<Rightarrow>
             if d < t then (Inr txt, advance d w) else (Inl (Error (RequestTimeout t)), advance t w)
         | Rejects d m \<Rightarrow>
             if d < t then (Inl (Error (Str m)), advance d w)
             else (Inl (Error (RequestTimeout t)), advance t w)
         | Pending \<Rightarrow> (Inl (Error (RequestTimeout t)), advance t w))"

definition manager_delay :: "nat \<Rightarrow> world \<Rightarrow> world" where
  "manager_delay ms w = advance ms (w\<lparr>actions := actions w @ [Sleep ms]\<rparr>)"

text \<open>
  The body of the inner \<open>try\<close> for one attempt: \<open>Inr\<close> is the outcome returned, \<open>Inl\<close> the
  error the inner \<open>catch\<close> receives.
\<close>

definition attemptOnce :: "string \<Rightarrow> prompt \<Rightarrow> nat \<Rightarrow> adapter \<Rightarrow> config \<Rightarrow> nat \<Rightarrow> nat \<Rightarrow> world \<Rightarrow> (thrown + outcome) \<times> world" where
  "attemptOnce imageData p t a c startTime attempt w =
     (case executeWithTimeout a imageData p t w of
        (Inl e, w) \<Rightarrow> (Inl e, w)
      | (Inr txt, w) \<Rightarrow>
          (let el = now w - startTime
           in case updateStats True el w of
                (Inl e, w) \<Rightarrow> (Inl e, w)
              | (Inr u, w) \<Rightarrow>
                  (case addHistory (cfg_name c) (Str txt) True el w of
                     (Inl e, w) \<Rightarrow> (Inl e, w)
                   | (Inr u, w) \<Rightarrow> (Inr (Success txt el (attempt + 1)), w))))"

text \<open>
  The loop \<open>for (let attempt = 0; attempt < retryCount; attempt++)\<close> and the
  \<open>throw lastError\<close> after it.
\<close>

function attemptLoop :: "string \<Rightarrow> prompt \<Rightarrow> nat \<Rightarrow> int \<Rightarrow> adapter \<Rightarrow> config \<Rightarrow> nat \<Rightarrow> nat \<Rightarrow> thrown \<Rightarrow> world \<Rightarrow> (thrown + outcome) \<times> world" where
  "attemptLoop imageData p t retries a c startTime attempt lastError w =
     (if int attempt < retries
      then (case attemptOnce imageData p t a c startTime attempt w of
              (Inr out, w) \<Rightarrow> (Inr out, w)
            | (Inl e, w) \<Rightarrow>
                attemptLoop imageData p t retries a c startTime (attempt + 1) e
                  (if int attempt < retries - 1 then manager_delay (1000 * (attempt + 1)) w else w))
      else (Inl lastError, w))"
  by pat_completeness auto
termination
  by (relation "measure (\<lambda>(imageData, p, t, retries, a, c, startTime, attempt, lastError, w).
        nat (retries - int attempt))") auto

record recognizeOptions =
  opt_timeout :: "nat option"
  opt_retryCount :: "int option"

text \<open>
  \<open>config.customPrompt || DEFAULT_RECOGNITION_PROMPT\<close>,
  \<open>options.timeout || settings.timeout\<close> and
  \<open>options.retryCount || settings.retryCount\<close>: an absent or zero option gives way to the
  setting.
\<close>

definition promptOf :: "config \<Rightarrow> prompt" where
  "promptOf c = (if customPrompt c \<noteq> [] then CustomPrompt (customPrompt c) else DEFAULT_RECOGNITION_PROMPT)"

definition timeoutOf :: "recognizeOptions \<Rightarrow> settings \<Rightarrow> nat" where
  "timeoutOf opts s = (case opt_timeout opts of Some x \<Rightarrow> if x \<noteq> 0 then x else timeout s | None \<Rightarrow> timeout s)"

definition retriesOf :: "recognizeOptions \<Rightarrow> settings \<Rightarrow> int" where
  "retriesOf opts s =
     (case opt_retryCount opts of Some x \<Rightarrow> if x \<noteq> 0 then x else retryCount s | None \<Rightarrow> retryCount s)"

text \<open>The body of the outer \<open>try\<close>.\<close>

definition recognize_body :: "string \<Rightarrow> recognizeOptions \<Rightarrow> nat \<Rightarrow> world \<Rightarrow> (thrown + outcome) \<times> world" where
  "recognize_body imageData opts startTime w =
     (case getActiveConfig w of
        Inl e \<Rightarrow> (Inl e, w)
      | Inr None \<Rightarrow> (Inl (Error NotConfigured), w)
      | Inr (Some c) \<Rightarrow>
          (case getSettings w of
             Inl e \<Rightarrow> (Inl e, w)
           | Inr s \<Rightarrow>
               (let p = promptOf c;
                    t = timeoutOf opts s;
                    retries = retriesOf opts s;
                    (a, m) = getAdapter c (api w)
                in attemptLoop imageData p t retries a c startTime 0 Null (w\<lparr>api := m\<rparr>))))"

text \<open>\<open>error.message\<close>: reading it from \<open>null\<close> throws.\<close>

definition messageOf :: "thrown \<Rightarrow> thrown + message" where
  "messageOf e = (case e of Null \<Rightarrow> Inl (Error CannotReadMessageOfNull) | Error m \<Rightarrow> Inr m)"

definition unknown_utf8 :: string where
  "unknown_utf8 =
     [char_of (0xE6::nat), char_of (0x9C::nat), char_of (0xAA::nat),
      char_of (0xE7::nat), char_of (0x9F::nat), char_of (0xA5::nat)]"

text \<open>
  The outer \<open>catch\<close>: the statistics are updated, the configuration is read again for
  its name, the record is added, and the failure is returned. \<open>Inl\<close> is an error thrown
  out of the handler, with which the promise of \<open>recognize\<close> rejects.
\<close>

definition recognize_catch :: "thrown \<Rightarrow> nat \<Rightarrow> world \<Rightarrow> (thrown + outcome) \<times> world" where
  "recognize_catch error startTime w =
     (let el = now w - startTime
      in case updateStats False el w of
           (Inl e, w) \<Rightarrow> (Inl e, w)
         | (Inr u, w) \<Rightarrow>
             (case getActiveConfig w of
                Inl e \<Rightarrow> (Inl e, w)
              | Inr c \<Rightarrow>
                  (let name = (case c of
                                 Some cfg \<Rightarrow> if cfg_name cfg \<noteq> [] then cfg_name cfg else unknown_utf8
                               | None \<Rightarrow> unknown_utf8)
                   in case messageOf error of
                        Inl e \<Rightarrow> (Inl e, w)
                      | Inr m \<Rightarrow>
                          (case addHistory name m False el w of
                             (Inl e, w) \<Rightarrow> (Inl e, w)
                           | (Inr u, w) \<Rightarrow> (Inr (Failure m el), w)))))"

definition recognize :: "string \<Rightarrow> recognizeOptions \<Rightarrow> world \<Rightarrow> (thrown + outcome) \<times> world" where
  "recognize imageData opts w =
     (let startTime = now w
      in case recognize_body imageData opts startTime w of
           (Inr out, w) \<Rightarrow> (Inr out, w)
         | (Inl error, w) \<Rightarrow> recognize_catch error startTime w)"

section \<open>Attempts as the specification words them\<close>

text \<open>
  An attempt succeeds when the provider's reply resolves before the timer. A failed
  attempt carries the provider's message when the reply rejects before the timer and the
  timeout message otherwise, and takes the reply's time or the timeout, whichever is
  shorter. \<open>failedTrail rq k m\<close> lists the actions of \<open>m\<close> failed attempts from attempt
  index \<open>k\<close> on: each attempt is one request, and between two attempts lies a wait of
  1000 milliseconds times the number of the attempt before it.
\<close>

definition settles :: "nat \<Rightarrow> reply \<Rightarrow> bool" where
  "settles t r = (case r of Resolves d s \<Rightarrow> d < t | _ \<Rightarrow> False)"

definition textOf :: "reply \<Rightarrow> string" where
  "textOf r = (case r of Resolves d s \<Rightarrow> s | _ \<Rightarrow> [])"

definition failureOf :: "nat \<Rightarrow> reply \<Rightarrow> message" where
  "failureOf t r =
     (case r of Rejects d m \<Rightarrow> if d < t then Str m else RequestTimeout t | _ \<Rightarrow> RequestTimeout t)"

definition took :: "nat \<Rightarrow> reply \<Rightarrow> nat" where
  "took t r = (case r of Resolves d s \<Rightarrow> min d t | Rejects d m \<Rightarrow> min d t | Pending \<Rightarrow> t)"

fun failedTrail :: "request \<Rightarrow> nat \<Rightarrow> nat \<Rightarrow> action list" where
  "failedTrail rq k 0 = []"
| "failedTrail rq k (Suc m) =
     Fetch rq # (if m = 0 then [] else Sleep (1000 * (k + 1)) # failedTrail rq (k + 1) m)"

fun failedDuration :: "nat \<Rightarrow> nat \<Rightarrow> reply list \<Rightarrow> nat" where
  "failedDuration t k [] = 0"
| "failedDuration t k (r # rs) =
     took t r + (if rs = [] then 0 else 1000 * (k + 1) + failedDuration t (k + 1) rs)"

definition statsOf :: "world \<Rightarrow> stats" where
  "statsOf w = orDefault (statistics w) \<lparr>totalRequests = 0, successCount = 0, failCount = 0, totalTime = 0\<rparr>"

section \<open>Example worlds\<close>

text \<open>
  A coordinator with one OpenAI-compatible configuration, active, and the default
  settings: a timeout of 30 seconds, three attempts, seven days of history.
\<close>

definition cfg1 :: config where
  "cfg1 =
     \<lparr>cfg_id = Some ''cfg1'', cfg_name = ''OpenAI'', cfg_type = Some ''openai_compatible'',
      baseUrl = Some ''https://api.openai.com/v1/'', modelName = Some ''gpt-4o'', apiKey = ''sk-key'',
      maxTokens = Some 100, temperature = Some (1 / 10), customHeaders = None, customPrompt = []\<rparr>"

definition world0 :: world where
  "world0 =
     \<lparr>api = \<lparr>adapters = Map.empty\<rparr>, api_configs = [cfg1], active_config_id = Some ''cfg1'',
      stored_settings = \<lparr>timeout = 30000, retryCount = 3, historyRetention = 7\<rparr>,
      recognition_history = [], statistics = None, get_lastError = None, set_lastError = None,
      now = 1000000, replies = [], actions = []\<rparr>"

definition no_options :: recognizeOptions where
  "no_options = \<lparr>opt_timeout = None, opt_retryCount = None\<rparr>"

definition request1 :: request where
  "request1 =
     \<lparr>url = ''https://api.openai.com/v1/chat/completions'',
      req_headers = [(''Content-Type'', ''application/json''), (''Authorization'', ''Bearer sk-key'')],
      req_model = Some ''gpt-4o'', req_prompt = DEFAULT_RECOGNITION_PROMPT, req_image = ''data:image/png;base64,AAAA''\<rparr>"

text \<open>The provider fails three times; or it fails twice and then answers.\<close>

definition failing_world :: world where
  "failing_world = world0\<lparr>replies := [Rejects 200 ''HTTP 500: Internal Server Error'', Pending, Rejects 100 ''overloaded'']\<rparr>"

definition recovering_world :: world where
  "recovering_world = world0\<lparr>replies := [Rejects 200 ''HTTP 500: Internal Server Error'', Pending, Resolves 150 ''AB3x'']\<rparr>"

text \<open>The settings page stored a retry count of zero.\<close>

definition zero_retries_world :: world where
  "zero_retries_world =
     world0\<lparr>stored_settings := \<lparr>timeout = 30000, retryCount = 0, historyRetention = 7\<rparr>,
       replies := [Resolves 150 ''AB3x'']\<rparr>"

text \<open>No configuration is active.\<close>

definition unconfigured_world :: world where
  "unconfigured_world = world0\<lparr>api_configs := [], active_config_id := None\<rparr>"

text \<open>The store refuses every write.\<close>

definition full_store_world :: world where
  "full_store_world = unconfigured_world\<lparr>set_lastError := Some ''QUOTA_BYTES quota exceeded''\<rparr>"

text \<open>
  The configuration \<open>cfg1\<close> after the user pointed it to another endpoint and model; and
  a coordinator whose cache still holds the adapter built from \<open>cfg1\<close>, while the store
  holds the edited configuration under the same id.
\<close>

definition cfg1_edited :: config where
  "cfg1_edited = cfg1\<lparr>baseUrl := Some ''https://proxy.example/v1'', modelName := Some ''gpt-4o-mini''\<rparr>"

definition stale_world :: world where
  "stale_world =
     world0\<lparr>api := snd (getAdapter cfg1 (api world0)), api_configs := [cfg1_edited],
       replies := [Resolves 150 ''AB3x'']\<rparr>"

text \<open>
  A configuration with custom headers that collide with the built-in ones, and the same
  configuration for the Gemini adapter.
\<close>

definition custom_cfg :: config where
  "custom_cfg =
     cfg1\<lparr>customHeaders := Some [(''Authorization'', ''Basic abc''), (''x-api-key'', ''override''),
                                 (''Content-Type'', ''text/plain''), (''X-Proxy-Token'', ''t'')]\<rparr>"

definition gemini_cfg :: config where
  "gemini_cfg = custom_cfg\<lparr>cfg_type := Some ''gemini'', baseUrl := None, modelName := None\<rparr>"

section \<open>Capturing an image element\<close>

text \<open>
  What the capture code reads from an \<open>img\<close> element: its source, whether it is complete,
  its natural and layout sizes, the size of its bounding rectangle, the bitmap it shows,
  whether it is cross-origin without approval (a canvas it is drawn on is then tainted and
  refuses to be serialised), and what the load in flight will do when the element is not
  complete yet: load after so many milliseconds with a natural size, fail after so many
  milliseconds, or stall.
\<close>

datatype pending = WillLoad nat nat nat | WillFail nat | WillStall

record imageElement =
  img_src :: string
  img_complete :: bool
  img_naturalWidth :: nat
  img_naturalHeight :: nat
  img_width :: nat
  img_height :: nat
  img_rect_width :: nat
  img_rect_height :: nat
  img_bitmap :: string
  img_tainted :: bool
  img_pending :: pending

text \<open>
  A payload is the PNG data URI of a canvas of a size showing a bitmap, or a source string
  handed on as it is, or the blank data URI \<open>data:,\<close>. The steps record waiting, drawing
  and requests to the network.
\<close>

datatype payload = Png nat nat string | Verbatim string | Blank

datatype captureError = LoadTimeout | LoadFailed | ZeroSize | SecurityError | ScreenshotFailed | CrossOriginCapture

datatype step = Waited nat | Drawn nat nat | NetworkRequest string

definition toDataURL :: "nat \<Rightarrow> nat \<Rightarrow> imageElement \<Rightarrow> captureError + payload" where
  "toDataURL w h img =
     (if img_tainted img then Inl SecurityError
      else if w = 0 \<or> h = 0 then Inr Blank
      else Inr (Png w h (img_bitmap img)))"

text \<open>
  \<open>waitForImageLoad\<close> of the content script: nothing to wait for when the image is
  complete with a natural width or its source is a data URI; otherwise the load event,
  the error event or the timer of 5000 milliseconds, whichever comes first.
\<close>

definition waitForImageLoad :: "imageElement \<Rightarrow> (captureError + imageElement) \<times> step list" where
  "waitForImageLoad img =
     (if img_complete img \<and> img_naturalWidth img > 0 then (Inr img, [])
      else if img_src img \<noteq> [] \<and> startsWith (img_src img) ''data:'' then (Inr img, [])
      else case img_pending img of
             WillLoad d w h \<Rightarrow>
               if d < 5000
               then (Inr (img\<lparr>img_complete := True, img_naturalWidth := w, img_naturalHeight := h\<rparr>),
                     [Waited d])
               else (Inl LoadTimeout, [Waited 5000])
           | WillFail d \<Rightarrow>
               if d < 5000 then (Inl LoadFailed, [Waited d]) else (Inl LoadTimeout, [Waited 5000])
           | WillStall \<Rightarrow> (Inl LoadTimeout, [Waited 5000]))"

definition captureElementAsScreenshot :: "imageElement \<Rightarrow> (captureError + payload) \<times> step list" where
  "captureElementAsScreenshot img =
     (case toDataURL (img_rect_width img) (img_rect_height img) img of
        Inl e \<Rightarrow> (Inl e, [Drawn (img_rect_width img) (img_rect_height img)])
      | Inr dataUrl \<Rightarrow>
          if dataUrl \<noteq> Blank then (Inr dataUrl, [Drawn (img_rect_width img) (img_rect_height img)])
          else (Inl ScreenshotFailed, [Drawn (img_rect_width img) (img_rect_height img)]))"

text \<open>
  The handler of the inner \<open>catch\<close> of \<open>captureImgElement\<close>: a source that is a data
  URI is handed on as it is; otherwise the screenshot is tried, and its failure becomes
  the cross-origin capture error.
\<close>

definition securityFallback :: "imageElement \<Rightarrow> step list \<Rightarrow> (captureError + payload) \<times> step list" where
  "securityFallback img steps =
     (if startsWith (img_src img) ''data:'' then (Inr (Verbatim (img_src img)), steps)
      else (case captureElementAsScreenshot img of
              (Inr p, extra) \<Rightarrow> (Inr p, steps @ extra)
            | (Inl e, extra) \<Rightarrow> (Inl CrossOriginCapture, steps @ extra)))"

text \<open>\<open>img.naturalWidth || img.width\<close> and \<open>img.naturalHeight || img.height\<close>.\<close>

definition drawWidth :: "imageElement \<Rightarrow> nat" where
  "drawWidth img = (if img_naturalWidth img \<noteq> 0 then img_naturalWidth img else img_width img)"

definition drawHeight :: "imageElement \<Rightarrow> nat" where
  "drawHeight img = (if img_naturalHeight img \<noteq> 0 then img_naturalHeight img else img_height img)"

text \<open>\<open>captureImgElement\<close> of the content script.\<close>

definition captureImgElement :: "imageElement \<Rightarrow> (captureError + payload) \<times> step list" where
  "captureImgElement img0 =
     (case waitForImageLoad img0 of
        (Inl e, steps) \<Rightarrow> (Inl e, steps)
      | (Inr img, steps) \<Rightarrow>
          if drawWidth img = 0 \<or> drawHeight img = 0 then (Inl ZeroSize, steps)
          else (case toDataURL (drawWidth img) (drawHeight img) img of
                  Inr (Png w h b) \<Rightarrow> (Inr (Png w h b), steps @ [Drawn (drawWidth img) (drawHeight img)])
                | _ \<Rightarrow> securityFallback img (steps @ [Drawn (drawWidth img) (drawHeight img)])))"

text \<open>
  \<open>captureImgElement\<close> of the detector module \<open>captcha-detector.js\<close>. It creates a new
  image in the anonymous cross-origin mode and gives it the source with a timestamp
  appended, so the browser requests that URL unless it is a data URI. \<open>stamp\<close> is the
  time printed in decimal; the answer to the request is the new image as it loaded, a
  failure, or nothing at all, in which case the promise never settles (\<open>None\<close>).
\<close>

datatype refetch = Refetched imageElement | RefetchFailed | RefetchStalls

definition srcWithTimestamp :: "string \<Rightarrow> string \<Rightarrow> string" where
  "srcWithTimestamp src stamp =
     (if js_includes src ''?'' then src @ ''&_t='' @ stamp else src @ ''?_t='' @ stamp)"

definition module_captureImgElement :: "imageElement \<Rightarrow> string \<Rightarrow> refetch \<Rightarrow> (captureError + payload) option \<times> step list" where
  "module_captureImgElement img stamp answer =
     (let steps = (if startsWith (img_src img) ''data:'' then []
                   else [NetworkRequest (srcWithTimestamp (img_src img) stamp)])
      in case answer of
           Refetched newImg \<Rightarrow>
             (case toDataURL (drawWidth newImg) (drawHeight newImg) newImg of
                Inr dataUrl \<Rightarrow>
                  (Some (Inr dataUrl), steps @ [Drawn (drawWidth newImg) (drawHeight newImg)])
              | Inl e \<Rightarrow>
                  if startsWith (img_src img) ''data:''
                  then (Some (Inr (Verbatim (img_src img))),
                        steps @ [Drawn (drawWidth newImg) (drawHeight newImg)])
                  else (Some (Inl CrossOriginCapture),
                        steps @ [Drawn (drawWidth newImg) (drawHeight newImg)]))
         | RefetchFailed \<Rightarrow>
             if startsWith (img_src img) ''data:'' then (Some (Inr (Verbatim (img_src img))), steps)
             else (Some (Inl LoadFailed), steps)
         | RefetchStalls \<Rightarrow> (None, steps))"

definition isNetworkRequest :: "step \<Rightarrow> bool" where
  "isNetworkRequest s = (case s of NetworkRequest u \<Rightarrow> True | _ \<Rightarrow> False)"




section \<open>Verified properties\<close>

subsection \<open>The detector\<close>

lemma calculateConfidence_bounds: "0 \<le> calculateConfidence doc e \<and> calculateConfidence doc e \<le> 100"
  by (simp add: calculateConfidence_def Let_def)

lemma no_keyword_in_empty: "\<not> carriesKeyword classKeywords []"
  by (simp add: carriesKeyword_def classKeywords_def toLowerCase_def yanzhengma_utf8_def)

lemma srcContainsKeywords_carries:
  "(src \<noteq> [] \<and> srcContainsKeywords src) = carriesKeyword classKeywords src"
  using no_keyword_in_empty by (auto simp: srcContainsKeywords_def carriesKeyword_def)

lemma matchesKeywords_html: "hasStringClassName e \<Longrightarrow> matchesKeywords e = ownKeywordSignal e"
  by (simp add: hasStringClassName_def matchesKeywords_def ownKeywordSignal_def carriesKeyword_def
      classAttribute_def classNameToString_def split: classValue.splits)

lemma parentLoop_ancestors:
  "list_all hasStringClassName (take (3 - depth) (case par of None \<Rightarrow> [] | Some q \<Rightarrow> q # ancestors q)) \<Longrightarrow>
   parentLoop par depth =
     list_ex ownKeywordSignal (take (3 - depth) (case par of None \<Rightarrow> [] | Some q \<Rightarrow> q # ancestors q))"
proof (induction par depth rule: parentLoop.induct)
  case (1 depth)
  then show ?case by simp
next
  case (2 p n par depth)
  show ?case
  proof (cases "depth < 3")
    case True
    then have t: "3 - depth = Suc (3 - Suc depth)" by simp
    have a: "ancestors (Element p n par) = (case par of None \<Rightarrow> [] | Some q \<Rightarrow> q # ancestors q)"
      by (cases par) simp_all
    from "2.prems" have h: "hasStringClassName (Element p n par)"
      and rest: "list_all hasStringClassName
         (take (3 - Suc depth) (case par of None \<Rightarrow> [] | Some q \<Rightarrow> q # ancestors q))"
      by (simp_all add: t a del: ancestors.simps)
    from "2.IH" [OF True _ rest]
    have "\<not> matchesKeywords (Element p n par) \<Longrightarrow> parentLoop par (Suc depth) =
        list_ex ownKeywordSignal (take (3 - Suc depth) (case par of None \<Rightarrow> [] | Some q \<Rightarrow> q # ancestors q))"
      by simp
    with True h show ?thesis
      by (auto simp add: t a matchesKeywords_html simp del: ancestors.simps)
  next
    case False
    then show ?thesis by simp
  qed
qed

lemma parentContainsKeywords_html:
  "list_all hasStringClassName (take 3 (ancestors e)) \<Longrightarrow>
   parentContainsKeywords e = ancestorKeywordSignal e"
proof -
  assume h: "list_all hasStringClassName (take 3 (ancestors e))"
  have a: "ancestors e = (case parentElement e of None \<Rightarrow> [] | Some q \<Rightarrow> q # ancestors q)"
    by (cases e, case_tac x3) simp_all
  from h have "list_all hasStringClassName
     (take (3 - 0) (case parentElement e of None \<Rightarrow> [] | Some q \<Rightarrow> q # ancestors q))"
    by (simp add: a [symmetric])
  from parentLoop_ancestors [OF this] show ?thesis
    by (simp add: parentContainsKeywords_def ancestorKeywordSignal_def a [symmetric])
qed

lemma isCaptchaSize_envelope:
  "isCaptchaSize (rect_width r) (rect_height r) = withinEnvelope r"
  by (simp add: isCaptchaSize_def withinEnvelope_def minWidth_def maxWidth_def minHeight_def maxHeight_def)

lemma signalSum_bounds: "0 \<le> signalSum c \<and> signalSum c \<le> 100"
  by (simp add: signalSum_def)

lemma scanned_signalSum:
  assumes "scanned doc c"
    and "list_all hasStringClassName (c_element c # take 3 (ancestors (c_element c)))"
  shows "confidence c = signalSum c"
proof -
  from assms(2) have own: "matchesKeywords (c_element c) = ownKeywordSignal (c_element c)"
    and anc: "parentContainsKeywords (c_element c) = ancestorKeywordSignal (c_element c)"
    by (simp_all add: matchesKeywords_html parentContainsKeywords_html)
  from assms(1) have conf: "confidence c = calculateConfidence doc (c_element c)"
    and inp: "inputElement c = findRelatedInput doc (c_element c)"
    and rect: "c_rect c = getBoundingClientRect (c_element c)"
    by (simp_all add: scanned_def)
  show ?thesis
    unfolding conf calculateConfidence_def signalSum_def Let_def own anc inp rect
      srcContainsKeywords_carries isCaptchaSize_envelope
    by simp
qed

lemma scanImages_forEach_scanned:
  "list_all (scanned doc) (detectedCaptchas d) \<Longrightarrow>
   list_all (scanned doc) (detectedCaptchas (scanImages_forEach doc i els d))"
proof (induction els arbitrary: i d)
  case Nil
  then show ?case by simp
next
  case (Cons img rest)
  show ?case
  proof (cases "isLikelyCaptcha doc img")
    case True
    then have "isCaptchaSize (rect_width (getBoundingClientRect img)) (rect_height (getBoundingClientRect img))"
      and "isVisible img"
      by (auto simp: isLikelyCaptcha_def split: if_splits)
    with Cons.prems True show ?thesis
      by (simp, intro Cons.IH) (simp add: push_def scanned_def)
  next
    case False
    with Cons.prems show ?thesis by (simp add: Cons.IH)
  qed
qed

lemma scanCanvas_forEach_scanned:
  "list_all (scanned doc) (detectedCaptchas d) \<Longrightarrow>
   list_all (scanned doc) (detectedCaptchas (scanCanvas_forEach doc i els d))"
proof (induction els arbitrary: i d)
  case Nil
  then show ?case by simp
next
  case (Cons c rest)
  show ?case
  proof (cases "isLikelyCanvasCaptcha doc c")
    case True
    then have "isCaptchaSize (rect_width (getBoundingClientRect c)) (rect_height (getBoundingClientRect c))"
      and "isVisible c"
      by (auto simp: isLikelyCanvasCaptcha_def split: if_splits)
    with Cons.prems True show ?thesis
      by (simp, intro Cons.IH) (simp add: push_def scanned_def)
  next
    case False
    with Cons.prems show ?thesis by (simp add: Cons.IH)
  qed
qed

lemma scanSvg_forEach_scanned:
  "list_all (scanned doc) (detectedCaptchas d) \<Longrightarrow>
   list_all (scanned doc) (detectedCaptchas (scanSvg_forEach doc i els d))"
proof (induction els arbitrary: i d)
  case Nil
  then show ?case by simp
next
  case (Cons s rest)
  show ?case
  proof (cases "isLikelySvgCaptcha doc s")
    case True
    then have "isCaptchaSize (rect_width (getBoundingClientRect s)) (rect_height (getBoundingClientRect s))"
      and "isVisible s"
      by (auto simp: isLikelySvgCaptcha_def split: if_splits)
    with Cons.prems True show ?thesis
      by (simp, intro Cons.IH) (simp add: push_def scanned_def)
  next
    case False
    with Cons.prems show ?thesis by (simp add: Cons.IH)
  qed
qed

lemma scan_scanned: "list_all (scanned doc) (detectedCaptchas (scan doc d))"
  unfolding scan_def scanSvg_def scanCanvas_def scanImages_def
  by (intro scanSvg_forEach_scanned scanCanvas_forEach_scanned scanImages_forEach_scanned) simp

lemma scan_forgets: "scan doc d = scan doc d'"
proof -
  have "d\<lparr>detectedCaptchas := []\<rparr> = d'\<lparr>detectedCaptchas := []\<rparr>"
    by (cases d, cases d') simp
  then show ?thesis unfolding scan_def by (simp only:)
qed

lemma scenario_scan_scores:
  "map confidence (detectedCaptchas (scan scenario_doc fresh_detector)) = [65]"
  by code_simp

text \<open>
  Where the element of a candidate and its first three ancestors are HTML elements, the
  confidence is the sum of the weights of the signals that fire, and the cap at 100 never
  cuts. The confidence of every candidate lies between 0 and 100, and a scan does not
  depend on what the detector held before, so that scanning the same document again
  gives the same candidates.
\<close>

lemma scan_confidence_of_html_candidates:
  "\<forall>c \<in> set (detectedCaptchas (scan doc d)).
      0 \<le> confidence c \<and> confidence c \<le> 100 \<and>
      (list_all hasStringClassName (c_element c # take 3 (ancestors (c_element c))) \<longrightarrow>
         confidence c = min (signalSum c) 100 \<and> confidence c = signalSum c)"
  "scan doc (scan doc d) = scan doc d"
proof -
  show "\<forall>c \<in> set (detectedCaptchas (scan doc d)).
      0 \<le> confidence c \<and> confidence c \<le> 100 \<and>
      (list_all hasStringClassName (c_element c # take 3 (ancestors (c_element c))) \<longrightarrow>
         confidence c = min (signalSum c) 100 \<and> confidence c = signalSum c)"
  proof
    fix c assume "c \<in> set (detectedCaptchas (scan doc d))"
    with scan_scanned [of doc d] have s: "scanned doc c" by (simp add: list_all_iff)
    then have "confidence c = calculateConfidence doc (c_element c)" by (simp add: scanned_def)
    with calculateConfidence_bounds [of doc "c_element c"]
    have b: "0 \<le> confidence c \<and> confidence c \<le> 100" by simp
    have h: "list_all hasStringClassName (c_element c # take 3 (ancestors (c_element c))) \<longrightarrow>
         confidence c = min (signalSum c) 100 \<and> confidence c = signalSum c"
      using scanned_signalSum [OF s] signalSum_bounds [of c] by auto
    show "0 \<le> confidence c \<and> confidence c \<le> 100 \<and>
      (list_all hasStringClassName (c_element c # take 3 (ancestors (c_element c))) \<longrightarrow>
         confidence c = min (signalSum c) 100 \<and> confidence c = signalSum c)"
      by (intro conjI) (rule b [THEN conjunct1], rule b [THEN conjunct2], rule h)
  qed
  show "scan doc (scan doc d) = scan doc d" by (rule scan_forgets)
qed

lemma scenario_confidence_is_signal_sum:
  "map (\<lambda>c. (confidence c, signalSum c)) (detectedCaptchas (scan scenario_doc fresh_detector)) = [(65, 65)]"
  by code_simp

text \<open>
  Claim C4. The confidence of a candidate is to be the capped sum of the weights of the
  signals that fire, a keyword in the element's own class or id counting 30. For an
  \<open>svg\<close> element the content script does not read the class: \<open>className\<close> is an object there
  and \<open>toString()\<close> prints it as \<open>[object SVGAnimatedString]\<close>. In the document of an \<open>svg\<close>
  element of class \<open>captcha\<close> beside a plain text input, a scan produces one candidate, the
  \<open>svg\<close> element, with the confidence 35 (linked input 25, size 10), where the signals
  that fire add up to 65. In the detector module the keyword test throws a \<open>TypeError\<close>
  on this element.
\<close>

theorem svg_class_keyword_is_not_scored:
  "map (\<lambda>c. (c_type c, c_element c = svg_element, confidence c, signalSum c))
     (detectedCaptchas (scan svg_doc fresh_detector)) = [(SvgType, True, 35, 65)] \<and>
   classAttribute svg_element = ''captcha'' \<and>
   ownKeywordSignal svg_element \<and>
   classNameToString (className (el_attrs svg_element)) = ''[object SVGAnimatedString]'' \<and>
   \<not> matchesKeywords svg_element \<and>
   module_matchesKeywords svg_element = Inl (NotAFunction ''toLowerCase'')"
proof -
  have "map (\<lambda>c. (c_type c, c_element c = svg_element, confidence c, signalSum c))
     (detectedCaptchas (scan svg_doc fresh_detector)) = [(SvgType, True, 35, 65)]"
    by code_simp
  moreover have "classAttribute svg_element = ''captcha''"
    by (simp add: classAttribute_def svg_element_def svg_captcha_def el_attrs_def)
  moreover have "ownKeywordSignal svg_element" by code_simp
  moreover have "classNameToString (className (el_attrs svg_element)) = ''[object SVGAnimatedString]''"
    by (simp add: classNameToString_def svg_element_def svg_captcha_def el_attrs_def)
  moreover have "\<not> matchesKeywords svg_element" by code_simp
  moreover have "module_matchesKeywords svg_element = Inl (NotAFunction ''toLowerCase'')"
    by (simp add: module_matchesKeywords_def svg_element_def svg_captcha_def el_attrs_def)
  ultimately show ?thesis by (simp only: simp_thms)
qed

text \<open>
  Claim C5. An element whose rendered width is outside 50 to 300 pixels or whose rendered
  height is outside 20 to 100 pixels is never the element of a candidate of a scan,
  whatever its class, id, source, alternative text and ancestors are.
\<close>

theorem scan_rejects_out_of_envelope:
  assumes "rect_width (getBoundingClientRect e) < 50 \<or> rect_width (getBoundingClientRect e) > 300 \<or>
           rect_height (getBoundingClientRect e) < 20 \<or> rect_height (getBoundingClientRect e) > 100"
  shows "\<forall>c \<in> set (detectedCaptchas (scan doc d)). c_element c \<noteq> e"
proof
  fix c assume "c \<in> set (detectedCaptchas (scan doc d))"
  with scan_scanned [of doc d] have "scanned doc c" by (simp add: list_all_iff)
  then have "isCaptchaSize (rect_width (getBoundingClientRect (c_element c)))
        (rect_height (getBoundingClientRect (c_element c)))"
    by (simp add: scanned_def)
  with assms show "c_element c \<noteq> e"
    by (auto simp: isCaptchaSize_def minWidth_def maxWidth_def minHeight_def maxHeight_def)
qed

theorem scan_rejects_out_of_envelope_witness:
  "rect_width (getBoundingClientRect banner_element) > 300 \<and>
   banner_element \<in> set (documentElements banner_doc) \<and>
   matchesKeywords banner_element \<and> parentContainsKeywords banner_element \<and>
   srcContainsKeywords (src_attr (el_attrs banner_element)) \<and>
   findRelatedInput banner_doc banner_element \<noteq> None \<and>
   banner_element \<notin> c_element ` set (detectedCaptchas (scan banner_doc fresh_detector))"
proof -
  have wide: "rect_width (getBoundingClientRect banner_element) > 300"
    by (simp add: banner_element_def banner_img_def getBoundingClientRect_def el_attrs_def)
  have "banner_element \<in> set (documentElements banner_doc)"
    by (simp add: banner_element_def banner_doc_def documentElements_def documentElement_def)
  moreover have "matchesKeywords banner_element" by code_simp
  moreover have "parentContainsKeywords banner_element" by code_simp
  moreover have "srcContainsKeywords (src_attr (el_attrs banner_element))" by code_simp
  moreover have "findRelatedInput banner_doc banner_element \<noteq> None" by code_simp
  moreover from wide have "\<forall>c \<in> set (detectedCaptchas (scan banner_doc fresh_detector)).
      c_element c \<noteq> banner_element"
    by (intro scan_rejects_out_of_envelope) simp
  ultimately show ?thesis using wide by auto
qed

lemma foldl_better_first_max:
  "\<exists>pre post. c # cs = pre @ foldl better c cs # post \<and>
     (\<forall>x \<in> set pre. confidence x < confidence (foldl better c cs)) \<and>
     (\<forall>x \<in> set post. confidence x \<le> confidence (foldl better c cs))"
proof (induction cs rule: rev_induct)
  case Nil
  have "[c] = [] @ foldl better c [] # [] \<and>
     (\<forall>x \<in> set []. confidence x < confidence (foldl better c [])) \<and>
     (\<forall>x \<in> set []. confidence x \<le> confidence (foldl better c []))" by simp
  then show ?case by blast
next
  case (snoc x cs)
  then obtain pre post where d: "c # cs = pre @ foldl better c cs # post"
    and lt: "\<forall>y \<in> set pre. confidence y < confidence (foldl better c cs)"
    and le: "\<forall>y \<in> set post. confidence y \<le> confidence (foldl better c cs)"
    by blast
  show ?case
  proof (cases "confidence x > confidence (foldl better c cs)")
    case True
    then have r: "foldl better c (cs @ [x]) = x" by (simp add: better_def)
    have "c # cs @ [x] = (c # cs) @ x # []" by simp
    moreover have "\<forall>y \<in> set (c # cs). confidence y < confidence x"
    proof
      fix y assume "y \<in> set (c # cs)"
      then have "y \<in> set pre \<or> y = foldl better c cs \<or> y \<in> set post"
        by (subst (asm) d) auto
      with lt le True show "confidence y < confidence x" by force
    qed
    ultimately show ?thesis unfolding r by (metis empty_iff list.set(1))
  next
    case False
    then have r: "foldl better c (cs @ [x]) = foldl better c cs" by (simp add: better_def)
    have "c # cs @ [x] = pre @ foldl better c cs # (post @ [x])" using d by simp
    moreover have "\<forall>y \<in> set (post @ [x]). confidence y \<le> confidence (foldl better c cs)"
      using le False by auto
    ultimately show ?thesis unfolding r using lt by blast
  qed
qed

text \<open>
  Claim C6. \<open>getMostLikelyCaptcha\<close> returns none when the detector holds no candidate;
  otherwise it returns a candidate of the list such that every candidate before it has a
  strictly smaller confidence and every candidate after it has a confidence that is not
  greater: the first candidate of maximal confidence.
\<close>

theorem getMostLikelyCaptcha_first_maximum:
  "(detectedCaptchas d = [] \<longrightarrow> getMostLikelyCaptcha d = None) \<and>
   (detectedCaptchas d \<noteq> [] \<longrightarrow>
      (\<exists>pre best post. getMostLikelyCaptcha d = Some best \<and>
         detectedCaptchas d = pre @ best # post \<and>
         (\<forall>x \<in> set pre. confidence x < confidence best) \<and>
         (\<forall>x \<in> set post. confidence x \<le> confidence best)))"
proof (cases "detectedCaptchas d")
  case Nil
  then show ?thesis by (simp add: getMostLikelyCaptcha_def)
next
  case (Cons c cs)
  with foldl_better_first_max [of c cs] show ?thesis
    by (simp add: getMostLikelyCaptcha_def)
qed


theorem getMostLikelyCaptcha_first_maximum_witness:
  "getMostLikelyCaptcha fresh_detector = None \<and>
   map (\<lambda>c. (c_id c, confidence c)) (detectedCaptchas (scan tie_doc fresh_detector)) =
     [(CaptchaId 0, 65), (CaptchaId 1, 65)] \<and>
   map_option c_id (getMostLikelyCaptcha (scan tie_doc fresh_detector)) = Some (CaptchaId 0) \<and>
   (\<exists>pre best post. getMostLikelyCaptcha (scan tie_doc fresh_detector) = Some best \<and>
      detectedCaptchas (scan tie_doc fresh_detector) = pre @ best # post \<and>
      (\<forall>x \<in> set pre. confidence x < confidence best) \<and>
      (\<forall>x \<in> set post. confidence x \<le> confidence best))"
proof -
  have "detectedCaptchas fresh_detector = []" by (simp add: fresh_detector_def)
  with getMostLikelyCaptcha_first_maximum [of fresh_detector]
  have none: "getMostLikelyCaptcha fresh_detector = None" by simp
  have scores: "map (\<lambda>c. (c_id c, confidence c)) (detectedCaptchas (scan tie_doc fresh_detector)) =
      [(CaptchaId 0, 65), (CaptchaId 1, 65)]"
    by code_simp
  then obtain c1 c2 where two: "detectedCaptchas (scan tie_doc fresh_detector) = [c1, c2]"
    and c1: "c_id c1 = CaptchaId 0" "confidence c1 = 65" and c2: "confidence c2 = 65"
    by auto
  then have ne: "detectedCaptchas (scan tie_doc fresh_detector) \<noteq> []" by simp
  with getMostLikelyCaptcha_first_maximum [of "scan tie_doc fresh_detector"]
  have first: "\<exists>pre best post. getMostLikelyCaptcha (scan tie_doc fresh_detector) = Some best \<and>
      detectedCaptchas (scan tie_doc fresh_detector) = pre @ best # post \<and>
      (\<forall>x \<in> set pre. confidence x < confidence best) \<and>
      (\<forall>x \<in> set post. confidence x \<le> confidence best)" by simp
  have "getMostLikelyCaptcha (scan tie_doc fresh_detector) = Some c1"
    using two c1 c2 by (simp add: getMostLikelyCaptcha_def better_def)
  with c1 have "map_option c_id (getMostLikelyCaptcha (scan tie_doc fresh_detector)) = Some (CaptchaId 0)"
    by simp
  with none scores first show ?thesis by simp
qed

lemma captchaImg_id_matches: "id_attr (el_attrs e) = ''captchaImg'' \<Longrightarrow> matchesKeywords e"
proof -
  assume a: "id_attr (el_attrs e) = ''captchaImg''"
  have "js_includes (toLowerCase ''captchaImg'') ''captcha''" by code_simp
  then show ?thesis by (simp add: matchesKeywords_def idKeywords_def a)
qed

lemma cap_png_no_keyword: "\<not> srcContainsKeywords ''https://example.com/cap.png''"
  by code_simp

lemma vcode_name_matches: "name_attr (el_attrs i) = ''vcode'' \<Longrightarrow> isCaptchaInputByName i"
proof -
  assume a: "name_attr (el_attrs i) = ''vcode''"
  have "js_includes (toLowerCase ''vcode'') ''code''" by code_simp
  then show ?thesis by (simp add: isCaptchaInputByName_def inputKeywords_def a)
qed

text \<open>
  Claim C7, as amended. In a document whose root holds a visible image of 120 by 40 pixels
  with the id \<open>captchaImg\<close> and the source \<open>https://example.com/cap.png\<close>, and ten
  pixels to its right a text input named \<open>vcode\<close>, a scan produces exactly one candidate,
  an image candidate whose linked input is that input; its confidence is 65 (id keyword
  30, linked input 25, size 10), or 80 when the root's class or id carries a keyword, so
  it is at least 65.
\<close>

theorem scenario_scan_one_candidate_confidence_65:
  assumes root: "tag ra = OtherTag"
    and img: "tag ia = Img" "id_attr ia = ''captchaImg''"
      "src_attr ia = ''https://example.com/cap.png''"
      "rect_width (boundingClientRect ia) = 120" "rect_height (boundingClientRect ia) = 40"
    and visible: "style_display ia \<noteq> ''none''" "style_visibility ia \<noteq> ''hidden''"
      "style_opacity ia \<noteq> ''0''"
    and inp: "tag na = Input" "type_attr na = None \<or> type_attr na = Some ''text''"
      "name_attr na = ''vcode''"
      "rect_left (boundingClientRect na) = rect_right (boundingClientRect ia) + 10"
  shows "\<exists>c. detectedCaptchas (scan (Node ra [Node ia [], Node na []]) d) = [c] \<and>
           c_type c = ImageType \<and>
           c_element c = Element [0] (Node ia []) (Some (documentElement (Node ra [Node ia [], Node na []]))) \<and>
           inputElement c =
             Some (Element [1] (Node na []) (Some (documentElement (Node ra [Node ia [], Node na []])))) \<and>
           confidence c = (if matchesKeywords (documentElement (Node ra [Node ia [], Node na []])) then 80 else 65) \<and>
           65 \<le> confidence c"
proof -
  let ?doc = "Node ra [Node ia [], Node na []]"
  let ?root = "documentElement ?doc"
  let ?img = "Element [0] (Node ia []) (Some ?root)"
  let ?inp = "Element [1] (Node na []) (Some ?root)"
  have els: "documentElements ?doc = [?root, ?img, ?inp]"
    by (simp add: documentElements_def documentElement_def)
  have desc: "descendants ?root = [?img, ?inp]"
    by (simp add: documentElement_def)
  have imgs: "querySelectorAll ?doc Img = [?img]"
    and canv: "querySelectorAll ?doc Canvas = []"
    and svgs: "querySelectorAll ?doc Svg = []"
    using root img(1) inp(1) by (simp_all add: querySelectorAll_def els el_attrs_def documentElement_def)
  have kw: "matchesKeywords ?img"
    by (rule captchaImg_id_matches) (simp add: el_attrs_def img)
  have size: "isCaptchaSize (rect_width (getBoundingClientRect ?img)) (rect_height (getBoundingClientRect ?img))"
    by (simp add: isCaptchaSize_def getBoundingClientRect_def el_attrs_def img minWidth_def maxWidth_def
        minHeight_def maxHeight_def)
  have vis: "isVisible ?img"
    by (simp add: isVisible_def getBoundingClientRect_def el_attrs_def img visible)
  have likely: "isLikelyCaptcha ?doc ?img"
    by (simp add: isLikelyCaptcha_def size vis kw)
  have "toLowerCase ''text'' = ''text''" by code_simp
  then have "isTextInput ?inp" "\<not> isTextInput ?img"
    using inp(1,2) img(1) by (auto simp: isTextInput_def el_attrs_def)
  moreover have "isCaptchaInputByName ?inp"
    by (rule vcode_name_matches) (simp add: el_attrs_def inp)
  ultimately have "findCaptchaInput ?root = Some ?inp"
    unfolding findCaptchaInput_def desc by simp
  then have rel: "findRelatedInput ?doc ?img = Some ?inp"
    by (simp add: findRelatedInput_def documentElement_def)
  have par: "parentContainsKeywords ?img = matchesKeywords ?root"
    by (simp add: parentContainsKeywords_def documentElement_def)
  have conf: "calculateConfidence ?doc ?img = (if matchesKeywords ?root then 80 else 65)"
    using kw size rel cap_png_no_keyword
    by (simp add: calculateConfidence_def par el_attrs_def img)
  have "detectedCaptchas (scan ?doc d) =
      [\<lparr>c_type = ImageType, c_element = ?img, c_src = src_attr (el_attrs ?img),
        c_rect = getBoundingClientRect ?img, confidence = calculateConfidence ?doc ?img,
        inputElement = findRelatedInput ?doc ?img, c_id = CaptchaId 0\<rparr>]"
    by (simp add: scan_def scanSvg_def scanCanvas_def scanImages_def imgs canv svgs likely push_def)
  then show ?thesis by (simp add: conf rel)
qed

theorem scenario_scan_one_candidate_confidence_65_witness:
  "tag scenario_img = Img \<and> name_attr scenario_input = ''vcode'' \<and>
   rect_left (boundingClientRect scenario_input) = rect_right (boundingClientRect scenario_img) + 10 \<and>
   (\<exists>c. detectedCaptchas (scan scenario_doc fresh_detector) = [c] \<and> c_type c = ImageType \<and>
      inputElement c = Some scenario_input_element \<and> confidence c = 65 \<and> 65 \<le> confidence c)"
proof -
  have nokw: "\<not> matchesKeywords (documentElement scenario_doc)"
    by code_simp
  have "\<exists>c. detectedCaptchas (scan (Node default_attrs [Node scenario_img [], Node scenario_input []]) fresh_detector) = [c] \<and>
           c_type c = ImageType \<and>
           c_element c = Element [0] (Node scenario_img []) (Some (documentElement (Node default_attrs [Node scenario_img [], Node scenario_input []]))) \<and>
           inputElement c =
             Some (Element [1] (Node scenario_input []) (Some (documentElement (Node default_attrs [Node scenario_img [], Node scenario_input []])))) \<and>
           confidence c = (if matchesKeywords (documentElement (Node default_attrs [Node scenario_img [], Node scenario_input []])) then 80 else 65) \<and>
           65 \<le> confidence c"
    by (rule scenario_scan_one_candidate_confidence_65) (simp_all add: default_attrs_def scenario_img_def scenario_input_def rect_right_def)
  with nokw show ?thesis
    by (auto simp: scenario_doc_def scenario_input_element_def scenario_img_def scenario_input_def
        default_attrs_def rect_right_def)
qed

text \<open>
  The claim as stated asks for a confidence of at least 85. In the scenario document the
  single candidate has the confidence 65, and no document reaches 85 for this image: its
  source carries no keyword, which leaves at most 30 + 15 + 25 + 10 = 80.
\<close>

theorem scenario_confidence_not_85:
  "\<not> (\<exists>c. detectedCaptchas (scan scenario_doc fresh_detector) = [c] \<and> c_type c = ImageType \<and>
         inputElement c = Some scenario_input_element \<and> 85 \<le> confidence c)"
proof -
  from scenario_scan_scores show ?thesis by auto
qed

lemma keyword_image_confidence_at_most_80:
  "src_attr (el_attrs e) = ''https://example.com/cap.png'' \<Longrightarrow> calculateConfidence doc e \<le> 80"
  using cap_png_no_keyword by (simp add: calculateConfidence_def Let_def)

subsection \<open>The fill engine\<close>

lemma effects_emit [simp]: "effects (emit e s) = effects s @ [e]"
  and value_emit [simp]: "input_value (emit e s) = input_value s"
  and draws_emit [simp]: "draws (emit e s) = draws s"
  by (simp_all add: emit_def)

lemma concat_stringIterator: "concat (stringIterator str) = str"
  by (induction str rule: stringIterator.induct) simp_all

lemma stringIterator_no_surrogates:
  "list_all (\<lambda>u. \<not> isHighSurrogate u) str \<Longrightarrow> stringIterator str = map (\<lambda>u. [u]) str"
  by (induction str rule: stringIterator.induct) simp_all

lemma stringIterator_ascii: "stringIterator (ascii str) = map (\<lambda>c. ascii [c]) str"
proof -
  have "list_all (\<lambda>u. \<not> isHighSurrogate u) (ascii str)"
  proof (induction str)
    case Nil
    then show ?case by (simp add: ascii_def)
  next
    case (Cons c cs)
    have "of_char c = (of_char c :: nat) mod 256" by (simp add: of_char_mod_256)
    then have "of_char c < (256 :: nat)" by (metis mod_less_divisor zero_less_numeral)
    then have "\<not> isHighSurrogate (of_char c)" unfolding isHighSurrogate_def by linarith
    with Cons show ?case by (simp add: ascii_def)
  qed
  then show ?thesis by (simp add: stringIterator_no_surrogates) (simp add: ascii_def comp_def)
qed

lemma typeChar_effects:
  "effects (typeChar random c s) = effects s @ typed random (draws s) [c]"
  "input_value (typeChar random c s) = input_value s @ c"
  "draws (typeChar random c s) = Suc (draws s)"
  by (simp_all add: typeChar_def dispatchKeyEvent_def dispatchEvent_def delay_def Let_def)

lemma typingLoop_effects:
  "effects (typingLoop random cs s) = effects s @ typed random (draws s) cs \<and>
   input_value (typingLoop random cs s) = input_value s @ concat cs \<and>
   draws (typingLoop random cs s) = draws s + length cs"
proof (induction cs arbitrary: s)
  case Nil
  then show ?case by simp
next
  case (Cons c cs)
  show ?case
    using Cons.IH [of "typeChar random c s"] by (simp add: typeChar_effects)
qed

lemma typed_keydowns: "filter isKeyDown (typed random k cs) = map (Key ''keydown'') cs"
  by (induction cs arbitrary: k) (simp_all add: isKeyDown_def)

lemma typed_keyups: "filter isKeyUp (typed random k cs) = map (Key ''keyup'') cs"
  by (induction cs arbitrary: k) (simp_all add: isKeyUp_def)

lemma typed_delays:
  "\<forall>k. 0 \<le> random k \<and> random k < 1 \<Longrightarrow>
   \<forall>e \<in> set (filter isDelay (typed random k cs)). 50 \<le> delay_ms e \<and> delay_ms e < 150"
  by (induction cs arbitrary: k) (simp_all add: isDelay_def delay_ms_def)

lemma typed_length: "length (filter isDelay (typed random k cs)) = length cs"
  by (induction cs arbitrary: k) (simp_all add: isDelay_def)

lemma typed_no_change:
  "filter (\<lambda>e. e = Dispatched ''change'') (typed random k cs) = []"
  "filter (\<lambda>e. e = Dispatched ''blur'') (typed random k cs) = []"
  by (induction cs arbitrary: k) simp_all

lemma submitForm_effects:
  "effects (submitForm pg s) = effects s @ submitEffects pg" "input_value (submitForm pg s) = input_value s"
  by (simp_all add: submitForm_def submitEffects_def dispatchKeyEvent_def Let_def split: option.splits)

lemma module_submitForm_effects:
  "effects (module_submitForm pg s) = effects s @ module_submitEffects pg"
  "input_value (module_submitForm pg s) = input_value s"
  by (simp_all add: module_submitForm_def module_submitEffects_def Let_def split: option.splits)

lemma submitEffects_cases:
  "submitEffects pg =
     (case form_cancels pg of
        Some prevented \<Rightarrow> FormDispatched ''submit'' # (if prevented then [] else [FormSubmitted])
      | None \<Rightarrow> if submitBtn pg then [Clicked]
                else [Key ''keydown'' (ascii ''Enter''), Key ''keypress'' (ascii ''Enter''),
                      Key ''keyup'' (ascii ''Enter'')])"
  by (simp add: submitForm_def submitEffects_def dispatchKeyEvent_def Let_def split: option.splits)

lemma module_submitEffects_cases:
  "module_submitEffects pg =
     (case form_cancels pg of
        Some prevented \<Rightarrow> FormDispatched ''submit'' # (if prevented then [] else [FormSubmitted])
      | None \<Rightarrow> if submitBtn pg then [Clicked] else [])"
  by (simp add: module_submitForm_def module_submitEffects_def Let_def split: option.splits)

lemma fill_simulated:
  assumes "simulate opts = None \<or> simulate opts = Some True"
  shows "fst (fill random pg True str opts s) = True"
   "input_value (snd (fill random pg True str opts s)) = str"
   "effects (snd (fill random pg True str opts s)) =
      effects s @ [Focus, Dispatched ''input''] @ typed random (draws s) (stringIterator str) @
      [Dispatched ''change'', Dispatched ''blur'', Highlighted] @
      (if autoSubmit opts = Some True then submitEffects pg else [])"
  using assms
  by (auto simp: fill_def Let_def simulateTyping_def dispatchEvent_def typingLoop_effects submitForm_effects
      concat_stringIterator split: option.splits)

lemma module_fill_simulated:
  assumes "simulate opts = None \<or> simulate opts = Some True"
  shows "fst (module_fill random pg answer True str opts s) =
      (if autoSubmit opts = Some True \<and> confirmBeforeSubmit opts \<noteq> Some False \<and> answer = Unanswered
       then None else Some True)"
   "input_value (snd (module_fill random pg answer True str opts s)) = str"
   "effects (snd (module_fill random pg answer True str opts s)) =
      effects s @ [Focus, Dispatched ''input''] @ typed random (draws s) (stringIterator str) @
      [Dispatched ''change'', Dispatched ''blur'', Highlighted] @
      module_afterHighlight pg answer str opts"
  using assms
  by (auto simp: module_fill_def Let_def simulateTyping_def dispatchEvent_def typingLoop_effects
      module_submitForm_effects module_afterHighlight_def concat_stringIterator
      split: option.splits confirmation.splits)

lemma after_typing_no_keys:
  "filter isKeyDown (module_afterHighlight pg answer str opts) = []"
  "filter isKeyUp (module_afterHighlight pg answer str opts) = []"
  "filter (\<lambda>e. e = Dispatched ''change'') (module_afterHighlight pg answer str opts) = []"
  "filter (\<lambda>e. e = Dispatched ''blur'') (module_afterHighlight pg answer str opts) = []"
  "filter (\<lambda>e. e = Dispatched ''change'') (submitEffects pg) = []"
  "filter (\<lambda>e. e = Dispatched ''blur'') (submitEffects pg) = []"
  by (auto simp: module_afterHighlight_def module_submitEffects_cases submitEffects_cases
      isKeyDown_def isKeyUp_def split: option.splits)

lemma submitEffects_keys:
  "filter isKeyDown (submitEffects pg) =
      (if form_cancels pg = None \<and> \<not> submitBtn pg then [Key ''keydown'' (ascii ''Enter'')] else [])"
  "filter isKeyUp (submitEffects pg) =
      (if form_cancels pg = None \<and> \<not> submitBtn pg then [Key ''keyup'' (ascii ''Enter'')] else [])"
  by (auto simp: submitEffects_cases isKeyDown_def isKeyUp_def split: option.splits)

text \<open>
  The fallback of \<open>submitForm\<close> in the content script: with auto-submit on, no enclosing form
  and no submit control, a key-down, a key-press and a key-up of Enter follow the
  highlight. The module has no such fallback.
\<close>

lemma fill_autosubmit_presses_enter:
  "newEffects half bare_page (ascii ''A'') submitting_options idle =
     [Focus, Dispatched ''input'',
      Key ''keydown'' (ascii ''A''), Dispatched ''input'', Key ''keyup'' (ascii ''A''), Delay 100,
      Dispatched ''change'', Dispatched ''blur'', Highlighted,
      Key ''keydown'' (ascii ''Enter''), Key ''keypress'' (ascii ''Enter''), Key ''keyup'' (ascii ''Enter'')]"
  "module_newEffects half bare_page Confirmed (ascii ''A'') module_submitting_options idle =
     [Focus, Dispatched ''input'',
      Key ''keydown'' (ascii ''A''), Dispatched ''input'', Key ''keyup'' (ascii ''A''), Delay 100,
      Dispatched ''change'', Dispatched ''blur'', Highlighted]"
  by (simp_all add: newEffects_def module_newEffects_def fill_def module_fill_def simulateTyping_def
      typeChar_def submitForm_def module_submitForm_def dispatchKeyEvent_def dispatchEvent_def delay_def
      emit_def submitting_options_def module_submitting_options_def bare_page_def idle_def half_def
      ascii_def isHighSurrogate_def Let_def)

text \<open>A character outside the basic plane is two code units and one pair of key events.\<close>

lemma fill_types_a_surrogate_pair_once:
  "stringIterator grinning_face = [grinning_face]"
  "filter isKeyDown (newEffects half bare_page grinning_face typing_options idle) =
     [Key ''keydown'' grinning_face]"
  "input_value (snd (fill half bare_page True grinning_face typing_options idle)) = grinning_face"
  by (simp_all add: newEffects_def fill_def simulateTyping_def typeChar_def dispatchKeyEvent_def
      dispatchEvent_def delay_def emit_def typing_options_def bare_page_def idle_def half_def
      grinning_face_def isHighSurrogate_def isLowSurrogate_def isKeyDown_def Let_def)

text \<open>
  Claim C9. \<open>fill\<close> on an input that is present, with keystroke simulation on, returns
  true and leaves the text as the input's value. It focuses and clears the input, then
  for each character of the text in order (n characters, as \<open>for ... of\<close> counts them) it
  dispatches a key-down, appends the character, dispatches the input notification and a
  key-up and waits 50 + 100 r milliseconds for a random r in [0, 1), so between 50 and 150
  milliseconds; after the loop it dispatches one change and one blur notification, and
  highlights the input. The typing dispatches exactly n key-down and n key-up events, in
  character order, and \<open>fill\<close> dispatches exactly one change and one blur notification.
  This holds of the content script and of the fill module alike. What follows the
  highlight is the submission, which is not part of the typing: in the module it holds
  no key event; in the content script it holds the key events of Enter when auto-submit
  is on and neither an enclosing form nor a submit control is found, and none otherwise.
  The module's \<open>fill\<close> returns true as well, unless it waits for a confirmation that is
  never given.
\<close>

theorem fill_types_each_character_once:
  assumes sim: "simulate opts = None \<or> simulate opts = Some True"
    and msim: "simulate mopts = None \<or> simulate mopts = Some True"
    and rnd: "\<forall>k. 0 \<le> random k \<and> random k < 1"
  shows "fst (fill random pg True str opts s) = True \<and>
         input_value (snd (fill random pg True str opts s)) = str \<and>
         newEffects random pg str opts s =
           [Focus, Dispatched ''input''] @ typed random (draws s) (stringIterator str) @
           [Dispatched ''change'', Dispatched ''blur'', Highlighted] @
           (if autoSubmit opts = Some True then submitEffects pg else []) \<and>
         filter isKeyDown (typed random (draws s) (stringIterator str)) =
           map (Key ''keydown'') (stringIterator str) \<and>
         filter isKeyUp (typed random (draws s) (stringIterator str)) =
           map (Key ''keyup'') (stringIterator str) \<and>
         length (filter isDelay (typed random (draws s) (stringIterator str))) = length (stringIterator str) \<and>
         (\<forall>e \<in> set (filter isDelay (typed random (draws s) (stringIterator str))).
            50 \<le> delay_ms e \<and> delay_ms e < 150) \<and>
         length (filter (\<lambda>e. e = Dispatched ''change'') (newEffects random pg str opts s)) = 1 \<and>
         length (filter (\<lambda>e. e = Dispatched ''blur'') (newEffects random pg str opts s)) = 1 \<and>
         filter isKeyDown (newEffects random pg str opts s) =
           map (Key ''keydown'') (stringIterator str) @
           (if autoSubmit opts = Some True \<and> form_cancels pg = None \<and> \<not> submitBtn pg
            then [Key ''keydown'' (ascii ''Enter'')] else []) \<and>
         filter isKeyUp (newEffects random pg str opts s) =
           map (Key ''keyup'') (stringIterator str) @
           (if autoSubmit opts = Some True \<and> form_cancels pg = None \<and> \<not> submitBtn pg
            then [Key ''keyup'' (ascii ''Enter'')] else []) \<and>
         concat (stringIterator str) = str \<and>
         (list_all (\<lambda>u. \<not> isHighSurrogate u) str \<longrightarrow> length (stringIterator str) = length str) \<and>
         fst (module_fill random pg answer True str mopts s) =
           (if autoSubmit mopts = Some True \<and> confirmBeforeSubmit mopts \<noteq> Some False \<and> answer = Unanswered
            then None else Some True) \<and>
         input_value (snd (module_fill random pg answer True str mopts s)) = str \<and>
         module_newEffects random pg answer str mopts s =
           [Focus, Dispatched ''input''] @ typed random (draws s) (stringIterator str) @
           [Dispatched ''change'', Dispatched ''blur'', Highlighted] @
           module_afterHighlight pg answer str mopts \<and>
         length (filter (\<lambda>e. e = Dispatched ''change'') (module_newEffects random pg answer str mopts s)) = 1 \<and>
         length (filter (\<lambda>e. e = Dispatched ''blur'') (module_newEffects random pg answer str mopts s)) = 1 \<and>
         filter isKeyDown (module_newEffects random pg answer str mopts s) =
           map (Key ''keydown'') (stringIterator str) \<and>
         filter isKeyUp (module_newEffects random pg answer str mopts s) =
           map (Key ''keyup'') (stringIterator str)"
proof -
  have new: "newEffects random pg str opts s =
           [Focus, Dispatched ''input''] @ typed random (draws s) (stringIterator str) @
           [Dispatched ''change'', Dispatched ''blur'', Highlighted] @
           (if autoSubmit opts = Some True then submitEffects pg else [])"
    by (simp add: newEffects_def fill_simulated(3) [OF sim])
  have mnew: "module_newEffects random pg answer str mopts s =
           [Focus, Dispatched ''input''] @ typed random (draws s) (stringIterator str) @
           [Dispatched ''change'', Dispatched ''blur'', Highlighted] @
           module_afterHighlight pg answer str mopts"
    by (simp add: module_newEffects_def module_fill_simulated(3) [OF msim])
  have downs: "filter isKeyDown (newEffects random pg str opts s) =
           map (Key ''keydown'') (stringIterator str) @
           (if autoSubmit opts = Some True \<and> form_cancels pg = None \<and> \<not> submitBtn pg
            then [Key ''keydown'' (ascii ''Enter'')] else [])"
    unfolding new by (simp add: typed_keydowns submitEffects_keys isKeyDown_def)
  have ups: "filter isKeyUp (newEffects random pg str opts s) =
           map (Key ''keyup'') (stringIterator str) @
           (if autoSubmit opts = Some True \<and> form_cancels pg = None \<and> \<not> submitBtn pg
            then [Key ''keyup'' (ascii ''Enter'')] else [])"
    unfolding new by (simp add: typed_keyups submitEffects_keys isKeyUp_def)
  have once: "length (filter (\<lambda>e. e = Dispatched ''change'') (newEffects random pg str opts s)) = 1"
    "length (filter (\<lambda>e. e = Dispatched ''blur'') (newEffects random pg str opts s)) = 1"
    unfolding new by (simp_all add: typed_no_change after_typing_no_keys)
  have mdowns: "filter isKeyDown (module_newEffects random pg answer str mopts s) =
           map (Key ''keydown'') (stringIterator str)"
    unfolding mnew by (simp add: typed_keydowns after_typing_no_keys isKeyDown_def)
  have mups: "filter isKeyUp (module_newEffects random pg answer str mopts s) =
           map (Key ''keyup'') (stringIterator str)"
    unfolding mnew by (simp add: typed_keyups after_typing_no_keys isKeyUp_def)
  have monce: "length (filter (\<lambda>e. e = Dispatched ''change'') (module_newEffects random pg answer str mopts s)) = 1"
    "length (filter (\<lambda>e. e = Dispatched ''blur'') (module_newEffects random pg answer str mopts s)) = 1"
    unfolding mnew by (simp_all add: typed_no_change after_typing_no_keys)
  have bmp: "list_all (\<lambda>u. \<not> isHighSurrogate u) str \<longrightarrow> length (stringIterator str) = length str"
    by (simp add: stringIterator_no_surrogates)
  note parts = fill_simulated(1,2) [OF sim] module_fill_simulated(1,2) [OF msim] new mnew downs ups
    once mdowns mups monce bmp concat_stringIterator typed_keydowns typed_keyups typed_length
    typed_delays [OF rnd]
  show ?thesis by (intro conjI) (rule parts)+
qed

theorem fill_types_each_character_once_witness:
  "fst (fill half bare_page True (ascii ''AB3x'') typing_options idle) = True \<and>
   input_value (snd (fill half bare_page True (ascii ''AB3x'') typing_options idle)) = ascii ''AB3x'' \<and>
   filter isKeyDown (newEffects half bare_page (ascii ''AB3x'') typing_options idle) =
     map (Key ''keydown'') [ascii ''A'', ascii ''B'', ascii ''3'', ascii ''x''] \<and>
   filter isKeyUp (newEffects half bare_page (ascii ''AB3x'') typing_options idle) =
     map (Key ''keyup'') [ascii ''A'', ascii ''B'', ascii ''3'', ascii ''x''] \<and>
   length (filter (\<lambda>e. e = Dispatched ''change'') (newEffects half bare_page (ascii ''AB3x'') typing_options idle)) = 1 \<and>
   length (filter (\<lambda>e. e = Dispatched ''blur'') (newEffects half bare_page (ascii ''AB3x'') typing_options idle)) = 1 \<and>
   length (stringIterator (ascii ''AB3x'')) = 4 \<and>
   map delay_ms (filter isDelay (newEffects half bare_page (ascii ''AB3x'') typing_options idle)) =
     [100, 100, 100, 100] \<and>
   fst (module_fill half bare_page Confirmed True (ascii ''AB3x'') module_submitting_options idle) = Some True \<and>
   input_value (snd (module_fill half bare_page Confirmed True (ascii ''AB3x'') module_submitting_options idle)) =
     ascii ''AB3x'' \<and>
   filter isKeyDown (module_newEffects half bare_page Confirmed (ascii ''AB3x'') module_submitting_options idle) =
     map (Key ''keydown'') [ascii ''A'', ascii ''B'', ascii ''3'', ascii ''x''] \<and>
   filter isKeyUp (module_newEffects half bare_page Confirmed (ascii ''AB3x'') module_submitting_options idle) =
     map (Key ''keyup'') [ascii ''A'', ascii ''B'', ascii ''3'', ascii ''x'']"
proof -
  have sim: "simulate typing_options = None \<or> simulate typing_options = Some True"
    by (simp add: typing_options_def)
  have msim: "simulate module_submitting_options = None \<or> simulate module_submitting_options = Some True"
    by (simp add: module_submitting_options_def)
  have rnd: "\<forall>k. 0 \<le> half k \<and> half k < 1" by (simp add: half_def)
  have off: "autoSubmit typing_options \<noteq> Some True" by (simp add: typing_options_def)
  have on: "confirmBeforeSubmit module_submitting_options = Some False"
    by (simp add: module_submitting_options_def)
  have chars: "stringIterator (ascii ''AB3x'') = [ascii ''A'', ascii ''B'', ascii ''3'', ascii ''x'']"
    by (simp add: stringIterator_ascii)
  note T = fill_types_each_character_once [OF sim msim rnd,
      where pg = bare_page and str = "ascii ''AB3x''" and s = idle and answer = Confirmed]
  from T have c1: "fst (fill half bare_page True (ascii ''AB3x'') typing_options idle) = True"
    by (rule conjunct1)
  note T2 = T [THEN conjunct2]
  from T2 have c2: "input_value (snd (fill half bare_page True (ascii ''AB3x'') typing_options idle)) = ascii ''AB3x''"
    by (rule conjunct1)
  note T8 = T2 [THEN conjunct2, THEN conjunct2, THEN conjunct2, THEN conjunct2, THEN conjunct2,
    THEN conjunct2]
  note T9 = T8 [THEN conjunct2]
  note T10 = T9 [THEN conjunct2]
  note T11 = T10 [THEN conjunct2]
  note T14 = T11 [THEN conjunct2, THEN conjunct2, THEN conjunct2]
  note T15 = T14 [THEN conjunct2]
  note T19 = T15 [THEN conjunct2, THEN conjunct2, THEN conjunct2, THEN conjunct2]
  have downs: "filter isKeyDown (newEffects half bare_page (ascii ''AB3x'') typing_options idle) =
     map (Key ''keydown'') [ascii ''A'', ascii ''B'', ascii ''3'', ascii ''x'']"
    using T10 [THEN conjunct1] off by (simp add: chars)
  have ups: "filter isKeyUp (newEffects half bare_page (ascii ''AB3x'') typing_options idle) =
     map (Key ''keyup'') [ascii ''A'', ascii ''B'', ascii ''3'', ascii ''x'']"
    using T11 [THEN conjunct1] off by (simp add: chars)
  have m1: "fst (module_fill half bare_page Confirmed True (ascii ''AB3x'') module_submitting_options idle) = Some True"
    using T14 [THEN conjunct1] by simp
  have m2: "input_value (snd (module_fill half bare_page Confirmed True (ascii ''AB3x'') module_submitting_options idle)) =
     ascii ''AB3x''"
    using T15 [THEN conjunct1] .
  have mdowns: "filter isKeyDown (module_newEffects half bare_page Confirmed (ascii ''AB3x'') module_submitting_options idle) =
     map (Key ''keydown'') [ascii ''A'', ascii ''B'', ascii ''3'', ascii ''x'']"
    using T19 [THEN conjunct1] by (simp add: chars)
  have mups: "filter isKeyUp (module_newEffects half bare_page Confirmed (ascii ''AB3x'') module_submitting_options idle) =
     map (Key ''keyup'') [ascii ''A'', ascii ''B'', ascii ''3'', ascii ''x'']"
    using T19 [THEN conjunct2] by (simp add: chars)
  have "list_all (\<lambda>u. \<not> isHighSurrogate u) (ascii ''AB3x'')"
    by (simp add: ascii_def isHighSurrogate_def)
  with T11 [THEN conjunct2, THEN conjunct2, THEN conjunct1]
  have four: "length (stringIterator (ascii ''AB3x'')) = 4" by (simp add: ascii_def)
  have waits: "map delay_ms (filter isDelay (newEffects half bare_page (ascii ''AB3x'') typing_options idle)) =
     [100, 100, 100, 100]"
  proof -
    have h: "\<And>k. 50 + half k * 100 = 100" by (simp add: half_def)
    from T2 [THEN conjunct2, THEN conjunct1] off show ?thesis
      by (simp add: chars isDelay_def delay_ms_def h idle_def)
  qed
  from c1 c2 downs ups T8 [THEN conjunct1] T9 [THEN conjunct1] four waits m1 m2 mdowns mups
  show ?thesis by (simp only: simp_thms)
qed

subsection \<open>Request headers\<close>

lemma map_of_setProperty: "map_of (setProperty k v hs) x = (if x = k then Some v else map_of hs x)"
  by (induction hs) auto

lemma map_of_fold_setProperty:
  "distinct (map fst src) \<Longrightarrow>
   map_of (fold (\<lambda>(k, v). setProperty k v) src target) x =
     (case map_of src x of Some v \<Rightarrow> Some v | None \<Rightarrow> map_of target x)"
proof (induction src arbitrary: target)
  case Nil
  then show ?case by simp
next
  case (Cons p src)
  obtain k v where p: "p = (k, v)" by (cases p)
  from Cons.prems p have k: "k \<notin> fst ` set src" and d: "distinct (map fst src)" by auto
  from k have "map_of src k = None" by (simp add: map_of_eq_None_iff)
  with Cons.IH [OF d, of "setProperty k v target"] show ?case
    by (simp add: p map_of_setProperty split: option.splits)
qed

lemma map_of_objectAssign:
  "distinct (map fst src) \<Longrightarrow>
   map_of (objectAssign target src) x =
     (case map_of src x of Some v \<Rightarrow> Some v | None \<Rightarrow> map_of target x)"
  by (simp add: objectAssign_def map_of_fold_setProperty)

lemma openai_request_headers:
  "req_headers (adapter_request (newOpenAICompatibleAdapter c) imageData p) = openai_buildHeaders c"
  by (simp add: adapter_request_def newOpenAICompatibleAdapter_def openai_buildHeaders_def Let_def
      cong: option.case_cong)

lemma claude_request_headers:
  "req_headers (adapter_request (newClaudeAdapter c) imageData p) = claude_buildHeaders c"
  by (simp add: adapter_request_def newClaudeAdapter_def claude_buildHeaders_def Let_def
      cong: option.case_cong)

lemma gemini_request_headers:
  "req_headers (adapter_request (newGeminiAdapter c) imageData p) = [(''Content-Type'', ''application/json'')]"
  by (simp add: adapter_request_def newGeminiAdapter_def gemini_headers_def)

text \<open>
  Claim C8, as amended. In the OpenAI-compatible and the Claude adapter the custom headers
  of the configuration are assigned after the built-in headers: a custom header has its
  custom value in the request, also where its name collides with a built-in one, and a
  built-in header no custom header names keeps its value. The Gemini adapter sends the
  content type alone and merges no custom header.
\<close>

theorem custom_headers_override_builtin:
  assumes ch: "customHeaders c = Some ch" and d: "distinct (map fst ch)"
  shows "(\<forall>k v. map_of ch k = Some v \<longrightarrow>
            map_of (req_headers (adapter_request (newOpenAICompatibleAdapter c) imageData p)) k = Some v \<and>
            map_of (req_headers (adapter_request (newClaudeAdapter c) imageData p)) k = Some v) \<and>
         (\<forall>k. map_of ch k = None \<longrightarrow>
            map_of (req_headers (adapter_request (newOpenAICompatibleAdapter c) imageData p)) k =
              map_of (openai_buildHeaders (c\<lparr>customHeaders := None\<rparr>)) k \<and>
            map_of (req_headers (adapter_request (newClaudeAdapter c) imageData p)) k =
              map_of (claude_buildHeaders (c\<lparr>customHeaders := None\<rparr>)) k) \<and>
         req_headers (adapter_request (newGeminiAdapter c) imageData p) =
           [(''Content-Type'', ''application/json'')]"
proof -
  have o: "openai_buildHeaders c = objectAssign (openai_buildHeaders (c\<lparr>customHeaders := None\<rparr>)) ch"
    using ch by (simp add: openai_buildHeaders_def Let_def)
  have cl: "claude_buildHeaders c = objectAssign (claude_buildHeaders (c\<lparr>customHeaders := None\<rparr>)) ch"
    using ch by (simp add: claude_buildHeaders_def Let_def)
  show ?thesis
    unfolding openai_request_headers claude_request_headers gemini_request_headers o cl
    by (simp add: map_of_objectAssign [OF d])
qed

theorem custom_headers_override_builtin_witness:
  "map_of (req_headers (adapter_request (newOpenAICompatibleAdapter custom_cfg) ''data:image/png;base64,AAAA''
      DEFAULT_RECOGNITION_PROMPT)) ''Authorization'' = Some ''Basic abc'' \<and>
   map_of (req_headers (adapter_request (newClaudeAdapter custom_cfg) ''data:image/png;base64,AAAA''
      DEFAULT_RECOGNITION_PROMPT)) ''x-api-key'' = Some ''override'' \<and>
   map_of (req_headers (adapter_request (newClaudeAdapter custom_cfg) ''data:image/png;base64,AAAA''
      DEFAULT_RECOGNITION_PROMPT)) ''anthropic-version'' = Some ''2023-06-01'' \<and>
   req_headers (adapter_request (newGeminiAdapter custom_cfg) ''data:image/png;base64,AAAA''
      DEFAULT_RECOGNITION_PROMPT) = [(''Content-Type'', ''application/json'')]"
proof -
  let ?ch = "[(''Authorization'', ''Basic abc''), (''x-api-key'', ''override''),
              (''Content-Type'', ''text/plain''), (''X-Proxy-Token'', ''t'')]"
  have ch: "customHeaders custom_cfg = Some ?ch" by (simp add: custom_cfg_def)
  have d: "distinct (map fst ?ch)" by simp
  have look: "map_of ?ch ''Authorization'' = Some ''Basic abc''" "map_of ?ch ''x-api-key'' = Some ''override''"
    "map_of ?ch ''anthropic-version'' = None"
    by simp_all
  have builtin: "map_of (claude_buildHeaders (custom_cfg\<lparr>customHeaders := None\<rparr>)) ''anthropic-version'' =
      Some ''2023-06-01''"
    by (simp add: claude_buildHeaders_def custom_cfg_def cfg1_def map_of_setProperty)
  note T = custom_headers_override_builtin [OF ch d, of "''data:image/png;base64,AAAA''" DEFAULT_RECOGNITION_PROMPT]
  note wins = T [THEN conjunct1, rule_format]
  note kept = T [THEN conjunct2, THEN conjunct1, rule_format, OF look(3), THEN conjunct2]
  note gem = T [THEN conjunct2, THEN conjunct2]
  from wins [OF look(1), THEN conjunct1] wins [OF look(2), THEN conjunct2] kept gem
  show ?thesis by (simp only: builtin simp_thms)
qed

text \<open>
  The claim as stated covers the Gemini adapter too. A Gemini configuration whose custom
  headers set the content type and a proxy token: the request keeps the built-in content
  type and carries no token.
\<close>

theorem gemini_request_drops_custom_headers:
  "customHeaders (adapterConfig (newAdapter gemini_cfg)) =
     Some [(''Authorization'', ''Basic abc''), (''x-api-key'', ''override''),
           (''Content-Type'', ''text/plain''), (''X-Proxy-Token'', ''t'')] \<and>
   adapterKind (newAdapter gemini_cfg) = GeminiAdapter \<and>
   map_of (req_headers (adapter_request (newAdapter gemini_cfg) ''data:image/png;base64,AAAA''
      DEFAULT_RECOGNITION_PROMPT)) ''Content-Type'' \<noteq> Some ''text/plain'' \<and>
   map_of (req_headers (adapter_request (newAdapter gemini_cfg) ''data:image/png;base64,AAAA''
      DEFAULT_RECOGNITION_PROMPT)) ''X-Proxy-Token'' = None"
  by (simp add: newAdapter_def gemini_cfg_def custom_cfg_def cfg1_def newGeminiAdapter_def
      adapter_request_def gemini_headers_def)

subsection \<open>The dispatcher\<close>

declare attemptLoop.simps [simp del]

lemma attemptLoop_exhausted:
  "\<not> int attempt < retries \<Longrightarrow>
   attemptLoop imageData p t retries a c startTime attempt lastError w = (Inl lastError, w)"
  by (subst attemptLoop.simps) simp

lemma attemptLoop_returns:
  "int attempt < retries \<Longrightarrow> attemptOnce imageData p t a c startTime attempt w = (Inr out, w') \<Longrightarrow>
   attemptLoop imageData p t retries a c startTime attempt lastError w = (Inr out, w')"
  by (subst attemptLoop.simps) simp

lemma attemptLoop_retries:
  "int attempt < retries \<Longrightarrow> attemptOnce imageData p t a c startTime attempt w = (Inl e, w') \<Longrightarrow>
   attemptLoop imageData p t retries a c startTime attempt lastError w =
     attemptLoop imageData p t retries a c startTime (attempt + 1) e
       (if int attempt < retries - 1 then manager_delay (1000 * (attempt + 1)) w' else w')"
  by (subst attemptLoop.simps) simp

lemma attemptOnce_fails:
  "replies w = r # rs \<Longrightarrow> \<not> settles t r \<Longrightarrow>
   attemptOnce imageData p t a c startTime attempt w =
     (Inl (Error (failureOf t r)),
      w\<lparr>now := now w + took t r, replies := rs,
        actions := actions w @ [Fetch (adapter_request a imageData p)]\<rparr>)"
  by (cases r)
    (auto simp: attemptOnce_def executeWithTimeout_def nextReply_def advance_def settles_def failureOf_def
      took_def Let_def split: if_splits)

lemma attemptLoop_all_fail:
  "replies w = rs @ rest \<Longrightarrow> rs \<noteq> [] \<Longrightarrow> \<forall>r \<in> set rs. \<not> settles t r \<Longrightarrow>
   retries = int (k + length rs) \<Longrightarrow>
   attemptLoop imageData p t retries a c startTime k lastError w =
     (Inl (Error (failureOf t (last rs))),
      w\<lparr>now := now w + failedDuration t k rs, replies := rest,
        actions := actions w @ failedTrail (adapter_request a imageData p) k (length rs)\<rparr>)"
proof (induction rs arbitrary: k w lastError)
  case Nil
  then show ?case by simp
next
  case (Cons r rs)
  let ?w1 = "w\<lparr>now := now w + took t r, replies := rs @ rest,
        actions := actions w @ [Fetch (adapter_request a imageData p)]\<rparr>"
  have once: "attemptOnce imageData p t a c startTime k w = (Inl (Error (failureOf t r)), ?w1)"
    using Cons.prems by (intro attemptOnce_fails) auto
  have lt: "int k < retries" using Cons.prems by simp
  show ?case
  proof (cases "rs = []")
    case True
    with Cons.prems have "\<not> int k < retries - 1" "\<not> int (k + 1) < retries" by auto
    with once lt True show ?thesis
      by (simp add: attemptLoop_retries attemptLoop_exhausted)
  next
    case False
    with Cons.prems have more: "int k < retries - 1" by auto
    let ?w2 = "manager_delay (1000 * (k + 1)) ?w1"
    have "attemptLoop imageData p t retries a c startTime (k + 1) (Error (failureOf t r)) ?w2 =
      (Inl (Error (failureOf t (last rs))),
       ?w2\<lparr>now := now ?w2 + failedDuration t (k + 1) rs, replies := rest,
         actions := actions ?w2 @ failedTrail (adapter_request a imageData p) (k + 1) (length rs)\<rparr>)"
      using Cons.prems False
      by (intro Cons.IH) (auto simp: manager_delay_def advance_def)
    with once lt more False show ?thesis
      by (cases "length rs") (simp_all add: attemptLoop_retries manager_delay_def advance_def)
  qed
qed

lemma getActiveConfig_healthy: "getActiveConfig w = Inr x \<Longrightarrow> get_lastError w = None"
  by (auto simp: getActiveConfig_def getActiveConfigId_def split: option.splits)

lemma getActiveConfig_fields:
  "get_lastError w' = get_lastError w \<Longrightarrow> active_config_id w' = active_config_id w \<Longrightarrow>
   api_configs w' = api_configs w \<Longrightarrow> getActiveConfig w' = getActiveConfig w"
  by (simp add: getActiveConfig_def getActiveConfigId_def getDecryptedApiConfigs_def
      cong: option.case_cong sum.case_cong)

lemma attemptOnce_succeeds:
  "replies w = Resolves d s # rs \<Longrightarrow> d < t \<Longrightarrow> get_lastError w = None \<Longrightarrow> set_lastError w = None \<Longrightarrow>
   attemptOnce imageData p t a c startTime attempt w =
     (Inr (Success s (now w + d - startTime) (attempt + 1)),
      w\<lparr>now := now w + d, replies := rs,
        statistics := Some (counted True (now w + d - startTime) (statsOf w)),
        recognition_history :=
          retained (stored_settings w) (now w + d)
            (\<lparr>h_configName = cfg_name c, h_result = Str s, h_success = True,
              h_elapsed = now w + d - startTime, h_timestamp = now w + d\<rparr>
             # take 999 (recognition_history w)),
        actions := actions w @
          [Fetch (adapter_request a imageData p),
           SetStats (counted True (now w + d - startTime) (statsOf w)),
           SetHistory (retained (stored_settings w) (now w + d)
            (\<lparr>h_configName = cfg_name c, h_result = Str s, h_success = True,
              h_elapsed = now w + d - startTime, h_timestamp = now w + d\<rparr>
             # take 999 (recognition_history w)))]\<rparr>)"
  by (simp add: attemptOnce_def executeWithTimeout_def nextReply_def advance_def updateStats_def
      getStats_def setStats_def addHistory_def getHistory_def getSettings_def setHistory_def statsOf_def
      Let_def)

lemma recognize_catch_healthy:
  "getActiveConfig w = Inr (Some c) \<Longrightarrow> set_lastError w = None \<Longrightarrow>
   recognize_catch (Error m) startTime w =
     (Inr (Failure m (now w - startTime)),
      w\<lparr>statistics := Some (counted False (now w - startTime) (statsOf w)),
        recognition_history :=
          retained (stored_settings w) (now w)
            (\<lparr>h_configName = (if cfg_name c \<noteq> [] then cfg_name c else unknown_utf8), h_result = m, h_success = False,
              h_elapsed = now w - startTime, h_timestamp = now w\<rparr>
             # take 999 (recognition_history w)),
        actions := actions w @
          [SetStats (counted False (now w - startTime) (statsOf w)),
           SetHistory (retained (stored_settings w) (now w)
            (\<lparr>h_configName = (if cfg_name c \<noteq> [] then cfg_name c else unknown_utf8), h_result = m, h_success = False,
              h_elapsed = now w - startTime, h_timestamp = now w\<rparr>
             # take 999 (recognition_history w)))]\<rparr>)"
proof -
  assume cfg: "getActiveConfig w = Inr (Some c)" and wr: "set_lastError w = None"
  from cfg have rd: "get_lastError w = None" by (rule getActiveConfig_healthy)
  let ?w1 = "w\<lparr>statistics := Some (counted False (now w - startTime) (statsOf w)),
        actions := actions w @ [SetStats (counted False (now w - startTime) (statsOf w))]\<rparr>"
  have us: "updateStats False (now w - startTime) w = (Inr (), ?w1)"
    using rd wr by (simp add: updateStats_def getStats_def setStats_def statsOf_def)
  have "getActiveConfig ?w1 = getActiveConfig w" by (rule getActiveConfig_fields) simp_all
  with cfg have cfg1: "getActiveConfig ?w1 = Inr (Some c)" by simp
  show ?thesis
    using rd wr
    by (simp add: recognize_catch_def us cfg1 messageOf_def addHistory_def getHistory_def
        getSettings_def setHistory_def Let_def)
qed


lemma retained_head:
  "0 < historyRetention s \<Longrightarrow> h_timestamp r = time \<Longrightarrow>
   retained s time (r # hs) \<noteq> [] \<and> hd (retained s time (r # hs)) = r"
  by (simp add: retained_def Let_def)

lemma failedTrail_3:
  "failedTrail rq 0 3 = [Fetch rq, Sleep 1000, Fetch rq, Sleep 2000, Fetch rq]"
  by (simp add: numeral_3_eq_3)

text \<open>
  Claim C1. The store works, a configuration is active, the retry count in force is 3 and
  the provider's first two replies fail. If the third fails too, \<open>recognize\<close> makes exactly
  three requests, one after the other, waits 1000 milliseconds after the first and 2000
  after the second, returns the failure carrying the error of the third attempt, and
  writes the statistics once and the history once; with a positive retention the history
  written starts with the record of this failure. If the third reply succeeds,
  \<open>recognize\<close> returns the success with attempt 3, after the same requests and waits and
  the same single writes.
\<close>

theorem recognize_three_attempts_one_record:
  assumes cfg: "getActiveConfig w = Inr (Some c)"
    and wr: "set_lastError w = None"
    and three: "retriesOf opts (stored_settings w) = 3"
    and script: "replies w = r1 # r2 # r3 # rest"
    and t: "t = timeoutOf opts (stored_settings w)"
    and rq: "rq = adapter_request (fst (getAdapter c (api w))) imageData (promptOf c)"
    and el: "el = took t r1 + 1000 + took t r2 + 2000 + took t r3"
    and fail1: "\<not> settles t r1" and fail2: "\<not> settles t r2"
  shows "(\<not> settles t r3 \<longrightarrow>
            fst (recognize imageData opts w) = Inr (Failure (failureOf t r3) el) \<and>
            (\<exists>h. actions (snd (recognize imageData opts w)) =
               actions w @ [Fetch rq, Sleep 1000, Fetch rq, Sleep 2000, Fetch rq,
                            SetStats (counted False el (statsOf w)), SetHistory h] \<and>
               (0 < historyRetention (stored_settings w) \<longrightarrow>
                  h \<noteq> [] \<and> h_result (hd h) = failureOf t r3 \<and> \<not> h_success (hd h) \<and>
                  h_elapsed (hd h) = el))) \<and>
         (settles t r3 \<longrightarrow>
            fst (recognize imageData opts w) = Inr (Success (textOf r3) el 3) \<and>
            (\<exists>h. actions (snd (recognize imageData opts w)) =
               actions w @ [Fetch rq, Sleep 1000, Fetch rq, Sleep 2000, Fetch rq,
                            SetStats (counted True el (statsOf w)), SetHistory h] \<and>
               (0 < historyRetention (stored_settings w) \<longrightarrow>
                  h \<noteq> [] \<and> h_result (hd h) = Str (textOf r3) \<and> h_success (hd h) \<and>
                  h_elapsed (hd h) = el)))"
proof -
  from cfg have rd: "get_lastError w = None" by (rule getActiveConfig_healthy)
  obtain a m where ga: "getAdapter c (api w) = (a, m)" by (cases "getAdapter c (api w)")
  let ?w0 = "w\<lparr>api := m\<rparr>"
  let ?p = "promptOf c"
  have rq': "rq = adapter_request a imageData ?p" using rq ga by simp
  have body: "recognize_body imageData opts (now w) w =
      attemptLoop imageData ?p t 3 a c (now w) 0 Null ?w0"
    using cfg rd three t ga by (simp add: recognize_body_def getSettings_def Let_def)
  have cfg0: "getActiveConfig ?w0 = Inr (Some c)"
    using cfg getActiveConfig_fields [of ?w0 w] by simp
  show ?thesis
  proof (intro conjI impI)
    assume fail3: "\<not> settles t r3"
    let ?w3 = "?w0\<lparr>now := now ?w0 + failedDuration t 0 [r1, r2, r3], replies := rest,
        actions := actions ?w0 @ failedTrail rq 0 (length [r1, r2, r3])\<rparr>"
    have loop: "attemptLoop imageData ?p t 3 a c (now w) 0 Null ?w0 = (Inl (Error (failureOf t (last [r1, r2, r3]))), ?w3)"
      unfolding rq'
      using script fail1 fail2 fail3 by (intro attemptLoop_all_fail) simp_all
    have cfg3: "getActiveConfig ?w3 = Inr (Some c)"
      using cfg getActiveConfig_fields [of ?w3 w] by simp
    have dur: "now ?w3 - now w = el" by (simp add: el)
    have rec: "recognize imageData opts w = recognize_catch (Error (failureOf t r3)) (now w) ?w3"
      by (simp add: recognize_def body loop Let_def)
    from recognize_catch_healthy [OF cfg3, of "failureOf t r3" "now w"] wr dur
    show "fst (recognize imageData opts w) = Inr (Failure (failureOf t r3) el)"
      by (simp add: rec)
    from recognize_catch_healthy [OF cfg3, of "failureOf t r3" "now w"] wr dur
    show "\<exists>h. actions (snd (recognize imageData opts w)) =
               actions w @ [Fetch rq, Sleep 1000, Fetch rq, Sleep 2000, Fetch rq,
                            SetStats (counted False el (statsOf w)), SetHistory h] \<and>
               (0 < historyRetention (stored_settings w) \<longrightarrow>
                  h \<noteq> [] \<and> h_result (hd h) = failureOf t r3 \<and> \<not> h_success (hd h) \<and>
                  h_elapsed (hd h) = el)"
      by (simp add: rec failedTrail_3 statsOf_def retained_head)
  next
    assume ok3: "settles t r3"
    then obtain d s where r3: "r3 = Resolves d s" and d: "d < t"
      by (cases r3) (auto simp: settles_def)
    let ?rq = "adapter_request a imageData ?p"
    let ?w1 = "manager_delay 1000 (?w0\<lparr>now := now ?w0 + took t r1, replies := r2 # r3 # rest,
        actions := actions ?w0 @ [Fetch ?rq]\<rparr>)"
    let ?w2 = "manager_delay 2000 (?w1\<lparr>now := now ?w1 + took t r2, replies := r3 # rest,
        actions := actions ?w1 @ [Fetch ?rq]\<rparr>)"
    have s1: "attemptLoop imageData ?p t 3 a c (now w) 0 Null ?w0 =
        attemptLoop imageData ?p t 3 a c (now w) 1 (Error (failureOf t r1)) ?w1"
      using script fail1 attemptOnce_fails [of ?w0 r1 "r2 # r3 # rest" t imageData ?p a c "now w" 0]
      by (simp add: attemptLoop_retries)
    have s2: "attemptLoop imageData ?p t 3 a c (now w) 1 (Error (failureOf t r1)) ?w1 =
        attemptLoop imageData ?p t 3 a c (now w) 2 (Error (failureOf t r2)) ?w2"
      using fail2 attemptOnce_fails [of ?w1 r2 "r3 # rest" t imageData ?p a c "now w" 1]
      by (simp add: attemptLoop_retries manager_delay_def advance_def numeral_2_eq_2 [symmetric])
    have healthy: "replies ?w2 = Resolves d s # rest" "get_lastError ?w2 = None" "set_lastError ?w2 = None"
      using rd wr r3 by (simp_all add: manager_delay_def advance_def)
    note s3 = attemptOnce_succeeds [OF healthy(1) d healthy(2) healthy(3), of imageData ?p a c "now w" 2]
    have dur: "now ?w2 + d - now w = el"
      using d by (simp add: el r3 took_def manager_delay_def advance_def)
    have s3': "attemptLoop imageData ?p t 3 a c (now w) 2 (Error (failureOf t r2)) ?w2 =
        attemptOnce imageData ?p t a c (now w) 2 ?w2"
      unfolding s3 by (rule attemptLoop_returns [OF _ s3]) simp
    have rec: "recognize imageData opts w = attemptOnce imageData ?p t a c (now w) 2 ?w2"
      unfolding recognize_def body s1 s2 s3' Let_def s3 by simp
    show "fst (recognize imageData opts w) = Inr (Success (textOf r3) el 3)"
      unfolding rec s3 using dur by (simp add: textOf_def r3)
    show "\<exists>h. actions (snd (recognize imageData opts w)) =
               actions w @ [Fetch rq, Sleep 1000, Fetch rq, Sleep 2000, Fetch rq,
                            SetStats (counted True el (statsOf w)), SetHistory h] \<and>
               (0 < historyRetention (stored_settings w) \<longrightarrow>
                  h \<noteq> [] \<and> h_result (hd h) = Str (textOf r3) \<and> h_success (hd h) \<and>
                  h_elapsed (hd h) = el)"
      unfolding rec s3 using dur
      by (simp add: rq' manager_delay_def advance_def statsOf_def retained_head textOf_def r3)
  qed
qed

lemma world0_active: "getActiveConfig (world0\<lparr>replies := rs\<rparr>) = Inr (Some cfg1)"
  by (simp add: getActiveConfig_def getActiveConfigId_def getDecryptedApiConfigs_def world0_def cfg1_def)

lemma world0_request:
  "adapter_request (fst (getAdapter cfg1 (api world0))) ''data:image/png;base64,AAAA''
     (promptOf cfg1) = request1"
  by (simp add: getAdapter_def world0_def adapterKey_def newAdapter_def newOpenAICompatibleAdapter_def
      adapter_request_def openai_buildHeaders_def stripTrailingSlashes_def orDefault_def interpolate_def
      promptOf_def request1_def cfg1_def)

theorem recognize_three_attempts_one_record_witness:
  "fst (recognize ''data:image/png;base64,AAAA'' no_options failing_world) =
     Inr (Failure (Str ''overloaded'') 33300) \<and>
   (\<exists>h. actions (snd (recognize ''data:image/png;base64,AAAA'' no_options failing_world)) =
      [Fetch request1, Sleep 1000, Fetch request1, Sleep 2000, Fetch request1,
       SetStats \<lparr>totalRequests = 1, successCount = 0, failCount = 1, totalTime = 33300\<rparr>,
       SetHistory h] \<and> h \<noteq> [] \<and> h_result (hd h) = Str ''overloaded'') \<and>
   fst (recognize ''data:image/png;base64,AAAA'' no_options recovering_world) =
     Inr (Success ''AB3x'' 33350 3) \<and>
   (\<exists>h. actions (snd (recognize ''data:image/png;base64,AAAA'' no_options recovering_world)) =
      [Fetch request1, Sleep 1000, Fetch request1, Sleep 2000, Fetch request1,
       SetStats \<lparr>totalRequests = 1, successCount = 1, failCount = 0, totalTime = 33350\<rparr>,
       SetHistory h] \<and> h \<noteq> [] \<and> h_result (hd h) = Str ''AB3x'')"
proof -
  let ?img = "''data:image/png;base64,AAAA''"
  let ?r1 = "Rejects 200 ''HTTP 500: Internal Server Error''"
  have cfg: "getActiveConfig failing_world = Inr (Some cfg1)" "getActiveConfig recovering_world = Inr (Some cfg1)"
    by (simp_all add: failing_world_def recovering_world_def world0_active)
  have wr: "set_lastError failing_world = None" "set_lastError recovering_world = None"
    by (simp_all add: failing_world_def recovering_world_def world0_def)
  have three: "retriesOf no_options (stored_settings failing_world) = 3"
    "retriesOf no_options (stored_settings recovering_world) = 3"
    by (simp_all add: retriesOf_def no_options_def failing_world_def recovering_world_def world0_def)
  have script: "replies failing_world = ?r1 # Pending # Rejects 100 ''overloaded'' # []"
    "replies recovering_world = ?r1 # Pending # Resolves 150 ''AB3x'' # []"
    by (simp_all add: failing_world_def recovering_world_def world0_def)
  have t: "(30000::nat) = timeoutOf no_options (stored_settings failing_world)"
    "(30000::nat) = timeoutOf no_options (stored_settings recovering_world)"
    by (simp_all add: timeoutOf_def no_options_def failing_world_def recovering_world_def world0_def)
  have rq: "request1 = adapter_request (fst (getAdapter cfg1 (api failing_world))) ?img (promptOf cfg1)"
    "request1 = adapter_request (fst (getAdapter cfg1 (api recovering_world))) ?img (promptOf cfg1)"
    by (simp_all add: failing_world_def recovering_world_def world0_request)
  have el: "(33300::nat) = took 30000 ?r1 + 1000 + took 30000 Pending + 2000 + took 30000 (Rejects 100 ''overloaded'')"
    "(33350::nat) = took 30000 ?r1 + 1000 + took 30000 Pending + 2000 + took 30000 (Resolves 150 ''AB3x'')"
    by (simp_all add: took_def)
  have f: "\<not> settles 30000 ?r1" "\<not> settles 30000 Pending" "\<not> settles 30000 (Rejects 100 ''overloaded'')"
    "settles 30000 (Resolves 150 ''AB3x'')"
    by (simp_all add: settles_def)
  have st: "counted False 33300 (statsOf failing_world) =
      \<lparr>totalRequests = 1, successCount = 0, failCount = 1, totalTime = 33300\<rparr>"
    "counted True 33350 (statsOf recovering_world) =
      \<lparr>totalRequests = 1, successCount = 1, failCount = 0, totalTime = 33350\<rparr>"
    "actions failing_world = []" "actions recovering_world = []"
    "failureOf 30000 (Rejects 100 ''overloaded'') = Str ''overloaded''"
    "textOf (Resolves 150 ''AB3x'') = ''AB3x''"
    by (simp_all add: counted_def statsOf_def orDefault_def failing_world_def recovering_world_def world0_def
        failureOf_def textOf_def)
  have keep: "0 < historyRetention (stored_settings failing_world)"
    "0 < historyRetention (stored_settings recovering_world)"
    by (simp_all add: failing_world_def recovering_world_def world0_def)
  from recognize_three_attempts_one_record [OF cfg(1) wr(1) three(1) script(1) t(1) rq(1) el(1) f(1) f(2)]
    f(3) keep(1)
  have a: "fst (recognize ?img no_options failing_world) =
       Inr (Failure (failureOf 30000 (Rejects 100 ''overloaded'')) 33300) \<and>
     (\<exists>h. actions (snd (recognize ?img no_options failing_world)) =
        actions failing_world @ [Fetch request1, Sleep 1000, Fetch request1, Sleep 2000, Fetch request1,
          SetStats (counted False 33300 (statsOf failing_world)), SetHistory h] \<and>
        h \<noteq> [] \<and> h_result (hd h) = failureOf 30000 (Rejects 100 ''overloaded''))"
    by blast
  from recognize_three_attempts_one_record [OF cfg(2) wr(2) three(2) script(2) t(2) rq(2) el(2) f(1) f(2)]
    f(4) keep(2)
  have b: "fst (recognize ?img no_options recovering_world) =
       Inr (Success (textOf (Resolves 150 ''AB3x'')) 33350 3) \<and>
     (\<exists>h. actions (snd (recognize ?img no_options recovering_world)) =
        actions recovering_world @ [Fetch request1, Sleep 1000, Fetch request1, Sleep 2000, Fetch request1,
          SetStats (counted True 33350 (statsOf recovering_world)), SetHistory h] \<and>
        h \<noteq> [] \<and> h_result (hd h) = Str (textOf (Resolves 150 ''AB3x'')))"
    by blast
  from a b show ?thesis
    unfolding st by simp
qed

lemma recognize_unconfigured:
  assumes "getActiveConfig w = Inr None" and "set_lastError w = None"
  shows "fst (recognize imageData opts w) = Inr (Failure NotConfigured 0) \<and>
         (\<exists>h. actions (snd (recognize imageData opts w)) =
            actions w @ [SetStats (counted False 0 (statsOf w)), SetHistory h])"
proof -
  from assms(1) have rd: "get_lastError w = None" by (rule getActiveConfig_healthy)
  let ?w1 = "w\<lparr>statistics := Some (counted False 0 (statsOf w)),
        actions := actions w @ [SetStats (counted False 0 (statsOf w))]\<rparr>"
  have us: "updateStats False 0 w = (Inr (), ?w1)"
    using rd assms(2) by (simp add: updateStats_def getStats_def setStats_def statsOf_def)
  have "getActiveConfig ?w1 = getActiveConfig w" by (rule getActiveConfig_fields) simp_all
  with assms(1) have cfg1: "getActiveConfig ?w1 = Inr None" by simp
  have "recognize imageData opts w = recognize_catch (Error NotConfigured) (now w) w"
    using assms(1) by (simp add: recognize_def recognize_body_def)
  then show ?thesis
    using rd assms(2)
    by (simp add: recognize_catch_def us cfg1 messageOf_def addHistory_def getHistory_def
        getSettings_def setHistory_def Let_def)
qed

lemma recognize_without_attempts:
  assumes cfg: "getActiveConfig w = Inr (Some c)" and wr: "set_lastError w = None"
    and none: "retriesOf opts (stored_settings w) \<le> 0"
  shows "fst (recognize imageData opts w) = Inl (Error CannotReadMessageOfNull) \<and>
         actions (snd (recognize imageData opts w)) = actions w @ [SetStats (counted False 0 (statsOf w))]"
proof -
  from cfg have rd: "get_lastError w = None" by (rule getActiveConfig_healthy)
  obtain a m where ga: "getAdapter c (api w) = (a, m)" by (cases "getAdapter c (api w)")
  let ?w0 = "w\<lparr>api := m\<rparr>"
  have body: "recognize_body imageData opts (now w) w = (Inl Null, ?w0)"
    using cfg rd none ga
    by (simp add: recognize_body_def getSettings_def attemptLoop_exhausted Let_def)
  let ?w1 = "?w0\<lparr>statistics := Some (counted False 0 (statsOf w)),
        actions := actions w @ [SetStats (counted False 0 (statsOf w))]\<rparr>"
  have us: "updateStats False 0 ?w0 = (Inr (), ?w1)"
    using rd wr by (simp add: updateStats_def getStats_def setStats_def statsOf_def)
  have "getActiveConfig ?w1 = getActiveConfig w" by (rule getActiveConfig_fields) simp_all
  with cfg have cfg1: "getActiveConfig ?w1 = Inr (Some c)" by simp
  show ?thesis
    by (simp add: recognize_def body recognize_catch_def us cfg1 messageOf_def Let_def)
qed

text \<open>
  Claim C2 says that \<open>recognize\<close> never throws. With a stored retry count of zero the loop
  makes no attempt, \<open>throw lastError\<close> throws \<open>null\<close>, and the handler, after it updated
  the statistics, reads \<open>message\<close> of \<open>null\<close>: the promise rejects with a TypeError and
  no history record is written.
\<close>

theorem recognize_rejects_after_zero_attempts:
  "fst (recognize ''data:image/png;base64,AAAA'' no_options zero_retries_world) =
     Inl (Error CannotReadMessageOfNull) \<and>
   actions (snd (recognize ''data:image/png;base64,AAAA'' no_options zero_retries_world)) =
     [SetStats \<lparr>totalRequests = 1, successCount = 0, failCount = 1, totalTime = 0\<rparr>]"
proof -
  have cfg: "getActiveConfig zero_retries_world = Inr (Some cfg1)"
    by (simp add: getActiveConfig_def getActiveConfigId_def getDecryptedApiConfigs_def
        zero_retries_world_def world0_def cfg1_def)
  have wr: "set_lastError zero_retries_world = None"
    by (simp add: zero_retries_world_def world0_def)
  have zero: "retriesOf no_options (stored_settings zero_retries_world) \<le> 0"
    by (simp add: retriesOf_def no_options_def zero_retries_world_def world0_def)
  have st: "counted False 0 (statsOf zero_retries_world) =
      \<lparr>totalRequests = 1, successCount = 0, failCount = 1, totalTime = 0\<rparr>"
    "actions zero_retries_world = []"
    by (simp_all add: counted_def statsOf_def orDefault_def zero_retries_world_def world0_def)
  from recognize_without_attempts [OF cfg wr zero, of "''data:image/png;base64,AAAA''"]
  show ?thesis unfolding st by simp
qed

lemma recognize_rejects_when_store_refuses_writes:
  "fst (recognize ''data:image/png;base64,AAAA'' no_options full_store_world) =
     Inl (Error (Str ''QUOTA_BYTES quota exceeded''))"
  by (simp add: recognize_def recognize_body_def recognize_catch_def getActiveConfig_def
      getActiveConfigId_def updateStats_def getStats_def setStats_def full_store_world_def
      unconfigured_world_def world0_def Let_def)

lemma getAdapter_cached: "adapters m (adapterKey c) = Some a \<Longrightarrow> getAdapter c m = (a, m)"
  by (simp add: getAdapter_def)

lemma getAdapter_stale:
  "adapters m (adapterKey c1) = None \<Longrightarrow> adapterKey c2 = adapterKey c1 \<Longrightarrow>
   getAdapter c2 (snd (getAdapter c1 m)) = (newAdapter c1, snd (getAdapter c1 m))"
  by (simp add: getAdapter_def)

lemma updateAdapter_rebuilds:
  "configId \<noteq> [] \<Longrightarrow> adapterKey c = Some configId \<Longrightarrow>
   fst (getAdapter c (updateAdapter configId newConfig m)) = newAdapter (newConfig\<lparr>cfg_id := Some configId\<rparr>)"
  by (simp add: updateAdapter_def getAdapter_def adapterKey_def Let_def split: option.splits)

lemma executeWithTimeout_actions:
  "\<exists>xs. actions (snd (executeWithTimeout a imageData p t w)) = actions w @ Fetch (adapter_request a imageData p) # xs"
  by (auto simp: executeWithTimeout_def nextReply_def advance_def Let_def split: list.splits reply.splits)

lemma updateStats_actions: "\<exists>xs. actions (snd (updateStats ok time w)) = actions w @ xs"
  by (auto simp: updateStats_def setStats_def split: sum.splits option.splits)

lemma addHistory_actions: "\<exists>xs. actions (snd (addHistory name res ok el w)) = actions w @ xs"
  by (auto simp: addHistory_def setHistory_def Let_def split: sum.splits option.splits)

lemma attemptOnce_actions:
  "\<exists>xs. actions (snd (attemptOnce imageData p t a c startTime attempt w)) =
     actions w @ Fetch (adapter_request a imageData p) # xs"
proof -
  obtain r w1 where e: "executeWithTimeout a imageData p t w = (r, w1)"
    by (cases "executeWithTimeout a imageData p t w")
  with executeWithTimeout_actions [of a imageData p t w]
  obtain xs where w1: "actions w1 = actions w @ Fetch (adapter_request a imageData p) # xs" by auto
  show ?thesis
  proof (cases r)
    case (Inl err)
    with e w1 show ?thesis by (simp add: attemptOnce_def)
  next
    case (Inr s)
    obtain r2 w2 where u: "updateStats True (now w1 - startTime) w1 = (r2, w2)"
      by (cases "updateStats True (now w1 - startTime) w1")
    with updateStats_actions [of True "now w1 - startTime" w1]
    obtain ys where w2: "actions w2 = actions w1 @ ys" by auto
    obtain r3 w3 where h: "addHistory (cfg_name c) (Str s) True (now w1 - startTime) w2 = (r3, w3)"
      by (cases "addHistory (cfg_name c) (Str s) True (now w1 - startTime) w2")
    with addHistory_actions [of "cfg_name c" "Str s" True "now w1 - startTime" w2]
    obtain zs where w3: "actions w3 = actions w2 @ zs" by auto
    from e Inr u h w1 w2 w3 show ?thesis
      by (auto simp: attemptOnce_def Let_def split: sum.splits)
  qed
qed

lemma manager_delay_actions: "actions (manager_delay ms w) = actions w @ [Sleep ms]"
  by (simp add: manager_delay_def advance_def)

lemma attemptLoop_actions:
  "\<exists>xs. actions (snd (attemptLoop imageData p t retries a c startTime attempt lastError w)) = actions w @ xs"
proof (induction imageData p t retries a c startTime attempt lastError w rule: attemptLoop.induct)
  case (1 imageData p t retries a c startTime attempt lastError w)
  show ?case
  proof (cases "int attempt < retries")
    case False
    then show ?thesis by (simp add: attemptLoop_exhausted)
  next
    case True
    obtain r w1 where once: "attemptOnce imageData p t a c startTime attempt w = (r, w1)"
      by (cases "attemptOnce imageData p t a c startTime attempt w")
    with attemptOnce_actions [of imageData p t a c startTime attempt w]
    obtain xs where w1: "actions w1 = actions w @ Fetch (adapter_request a imageData p) # xs" by auto
    show ?thesis
    proof (cases r)
      case (Inr out)
      with True once w1 show ?thesis by (simp add: attemptLoop_returns)
    next
      case (Inl e)
      let ?w2 = "if int attempt < retries - 1 then manager_delay (1000 * (attempt + 1)) w1 else w1"
      from "1.IH" [OF True once [symmetric, unfolded Inl] refl]
      obtain ys where "actions (snd (attemptLoop imageData p t retries a c startTime (attempt + 1) e ?w2)) =
          actions ?w2 @ ys" by auto
      moreover have "\<exists>zs. actions ?w2 = actions w @ zs"
        using w1 by (simp add: manager_delay_actions)
      ultimately show ?thesis
        using True once Inl by (auto simp: attemptLoop_retries)
    qed
  qed
qed

lemma attemptLoop_first_action:
  assumes "int attempt < retries"
  shows "\<exists>xs. actions (snd (attemptLoop imageData p t retries a c startTime attempt lastError w)) =
     actions w @ Fetch (adapter_request a imageData p) # xs"
proof -
  obtain r w1 where once: "attemptOnce imageData p t a c startTime attempt w = (r, w1)"
    by (cases "attemptOnce imageData p t a c startTime attempt w")
  with attemptOnce_actions [of imageData p t a c startTime attempt w]
  obtain xs where w1: "actions w1 = actions w @ Fetch (adapter_request a imageData p) # xs" by auto
  show ?thesis
  proof (cases r)
    case (Inr out)
    with assms once w1 show ?thesis by (simp add: attemptLoop_returns)
  next
    case (Inl e)
    let ?w2 = "if int attempt < retries - 1 then manager_delay (1000 * (attempt + 1)) w1 else w1"
    from attemptLoop_actions [of imageData p t retries a c startTime "attempt + 1" e ?w2]
    obtain ys where "actions (snd (attemptLoop imageData p t retries a c startTime (attempt + 1) e ?w2)) =
        actions ?w2 @ ys" by auto
    moreover have "\<exists>zs. actions ?w2 = actions w @ Fetch (adapter_request a imageData p) # zs"
      using w1 by (simp add: manager_delay_actions)
    ultimately show ?thesis
      using assms once Inl by (auto simp: attemptLoop_retries)
  qed
qed

lemma recognize_catch_actions: "\<exists>xs. actions (snd (recognize_catch error startTime w)) = actions w @ xs"
proof -
  obtain r1 w1 where u: "updateStats False (now w - startTime) w = (r1, w1)"
    by (cases "updateStats False (now w - startTime) w")
  with updateStats_actions [of False "now w - startTime" w]
  obtain xs where w1: "actions w1 = actions w @ xs" by auto
  have ah: "\<And>name m r x. addHistory name m False (now w - startTime) w1 = (r, x) \<Longrightarrow>
      \<exists>ys. actions x = actions w @ ys"
    using addHistory_actions w1 by (metis append.assoc snd_conv)
  from u w1 show ?thesis
    by (auto simp: recognize_catch_def Let_def split: sum.splits prod.splits dest: ah)
qed

lemma recognize_uses_cached_adapter:
  assumes cfg: "getActiveConfig w = Inr (Some c)"
    and cached: "adapters (api w) (adapterKey c) = Some a"
    and some: "0 < retriesOf opts (stored_settings w)"
  shows "\<exists>xs. actions (snd (recognize imageData opts w)) =
           actions w @ Fetch (adapter_request a imageData (promptOf c)) # xs"
proof -
  from cfg have rd: "get_lastError w = None" by (rule getActiveConfig_healthy)
  let ?t = "timeoutOf opts (stored_settings w)"
  let ?n = "retriesOf opts (stored_settings w)"
  have body: "recognize_body imageData opts (now w) w =
      attemptLoop imageData (promptOf c) ?t ?n a c (now w) 0 Null w"
    using cfg rd cached by (simp add: recognize_body_def getSettings_def getAdapter_cached Let_def)
  from some have "int 0 < ?n" by simp
  from attemptLoop_first_action [OF this, of imageData "promptOf c" ?t a c "now w" Null w]
  obtain xs where first: "actions (snd (attemptLoop imageData (promptOf c) ?t ?n a c (now w) 0 Null w)) =
      actions w @ Fetch (adapter_request a imageData (promptOf c)) # xs" by auto
  obtain r w1 where loop: "attemptLoop imageData (promptOf c) ?t ?n a c (now w) 0 Null w = (r, w1)"
    by (cases "attemptLoop imageData (promptOf c) ?t ?n a c (now w) 0 Null w")
  show ?thesis
  proof (cases r)
    case (Inr out)
    with body loop first show ?thesis by (simp add: recognize_def)
  next
    case (Inl e)
    from recognize_catch_actions [of e "now w" w1]
    obtain ys where "actions (snd (recognize_catch e (now w) w1)) = actions w1 @ ys" by auto
    with body loop first Inl show ?thesis by (simp add: recognize_def)
  qed
qed

text \<open>
  Claim C10. \<open>getAdapter\<close> returns the adapter cached under the configuration's key and
  leaves the cache as it is, whatever else the configuration holds. After a first call
  built the adapter of a configuration, a call with another configuration of the same key
  returns the adapter of the first. After \<open>updateAdapter\<close> with a non-empty id, the
  adapter under that id is the one built from the new configuration. And \<open>recognize\<close>
  sends the request of the cached adapter: a dispatch after the active configuration
  changed under the same id uses the settings the adapter was built with.
\<close>

theorem getAdapter_returns_cached_instance:
  "(adapters m (adapterKey c') = Some a \<longrightarrow> getAdapter c' m = (a, m)) \<and>
   (adapters m (adapterKey c) = None \<and> adapterKey c' = adapterKey c \<longrightarrow>
      getAdapter c' (snd (getAdapter c m)) = (newAdapter c, snd (getAdapter c m))) \<and>
   (configId \<noteq> [] \<and> adapterKey c' = Some configId \<longrightarrow>
      fst (getAdapter c' (updateAdapter configId newConfig m)) =
        newAdapter (newConfig\<lparr>cfg_id := Some configId\<rparr>)) \<and>
   (getActiveConfig w = Inr (Some c') \<and> adapters (api w) (adapterKey c') = Some a \<and>
    0 < retriesOf opts (stored_settings w) \<longrightarrow>
      (\<exists>xs. actions (snd (recognize imageData opts w)) =
         actions w @ Fetch (adapter_request a imageData (promptOf c')) # xs))"
  using getAdapter_cached [of m c' a] getAdapter_stale [of m c c'] updateAdapter_rebuilds [of configId c' newConfig m]
    recognize_uses_cached_adapter [of w c' a opts imageData]
  by auto

theorem getAdapter_returns_cached_instance_witness:
  "getAdapter cfg1_edited (snd (getAdapter cfg1 (api world0))) =
     (newAdapter cfg1, snd (getAdapter cfg1 (api world0))) \<and>
   baseUrl (adapterConfig (newAdapter cfg1)) = Some ''https://api.openai.com/v1'' \<and>
   baseUrl cfg1_edited = Some ''https://proxy.example/v1'' \<and>
   fst (getAdapter cfg1_edited (updateAdapter ''cfg1'' cfg1_edited (snd (getAdapter cfg1 (api world0))))) =
     newAdapter cfg1_edited \<and>
   (\<exists>xs. actions (snd (recognize ''data:image/png;base64,AAAA'' no_options stale_world)) =
      Fetch request1 # xs)"
proof -
  let ?img = "''data:image/png;base64,AAAA''"
  let ?m = "snd (getAdapter cfg1 (api world0))"
  have key: "adapterKey cfg1 = Some ''cfg1''" "adapterKey cfg1_edited = Some ''cfg1''"
    by (simp_all add: adapterKey_def cfg1_edited_def cfg1_def)
  have fresh: "adapters (api world0) (adapterKey cfg1) = None" by (simp add: world0_def)
  have same: "adapterKey cfg1_edited = adapterKey cfg1" by (simp add: key)
  have cached: "adapters (api stale_world) (adapterKey cfg1_edited) = Some (newAdapter cfg1)"
    using fresh by (simp add: stale_world_def getAdapter_def key)
  have cfg: "getActiveConfig stale_world = Inr (Some cfg1_edited)"
    by (simp add: getActiveConfig_def getActiveConfigId_def getDecryptedApiConfigs_def
        stale_world_def world0_def cfg1_edited_def cfg1_def)
  have some: "0 < retriesOf no_options (stored_settings stale_world)"
    by (simp add: retriesOf_def no_options_def stale_world_def world0_def)
  have rq: "adapter_request (newAdapter cfg1) ?img (promptOf cfg1_edited) = request1"
    by (simp add: newAdapter_def newOpenAICompatibleAdapter_def adapter_request_def
        openai_buildHeaders_def stripTrailingSlashes_def orDefault_def interpolate_def promptOf_def
        request1_def cfg1_edited_def cfg1_def)
  have old: "baseUrl (adapterConfig (newAdapter cfg1)) = Some ''https://api.openai.com/v1''"
    by (simp add: newAdapter_def newOpenAICompatibleAdapter_def stripTrailingSlashes_def orDefault_def
        cfg1_def)
  have new: "baseUrl cfg1_edited = Some ''https://proxy.example/v1''"
    by (simp add: cfg1_edited_def)
  have id: "cfg1_edited\<lparr>cfg_id := Some ''cfg1''\<rparr> = cfg1_edited"
    by (simp add: cfg1_edited_def cfg1_def)
  have none: "actions stale_world = []" by (simp add: stale_world_def world0_def)
  note T = getAdapter_returns_cached_instance [where m = "api world0" and c = cfg1 and c' = cfg1_edited
      and a = "newAdapter cfg1" and w = stale_world and opts = no_options and imageData = ?img]
  note U = getAdapter_returns_cached_instance [where m = ?m and c' = cfg1_edited and configId = "''cfg1''"
      and newConfig = cfg1_edited]
  from T [THEN conjunct2, THEN conjunct1] fresh same
  have a: "getAdapter cfg1_edited ?m = (newAdapter cfg1, ?m)" by simp
  from U [THEN conjunct2, THEN conjunct2, THEN conjunct1] key(2)
  have b: "fst (getAdapter cfg1_edited (updateAdapter ''cfg1'' cfg1_edited ?m)) = newAdapter cfg1_edited"
    by (simp add: id)
  from T [THEN conjunct2, THEN conjunct2, THEN conjunct2] cfg cached some
  have c: "\<exists>xs. actions (snd (recognize ?img no_options stale_world)) = Fetch request1 # xs"
    by (simp add: rq none)
  from a old new b c show ?thesis by (simp only: simp_thms)
qed

subsection \<open>Capture\<close>

lemma waitForImageLoad_steps:
  "\<forall>s \<in> set (snd (waitForImageLoad img)). \<not> isNetworkRequest s \<and> (\<forall>d. s = Waited d \<longrightarrow> d \<le> 5000)"
  by (auto simp: waitForImageLoad_def isNetworkRequest_def split: pending.splits)

lemma waitForImageLoad_keeps:
  "waitForImageLoad img = (Inr img', steps) \<Longrightarrow>
   img_src img' = img_src img \<and> img_tainted img' = img_tainted img \<and> img_bitmap img' = img_bitmap img"
  by (auto simp: waitForImageLoad_def split: if_splits pending.splits)

lemma captureElementAsScreenshot_steps:
  "\<forall>s \<in> set (snd (captureElementAsScreenshot img)). \<not> isNetworkRequest s \<and> (\<forall>d. s \<noteq> Waited d)"
  by (auto simp: captureElementAsScreenshot_def isNetworkRequest_def split: sum.splits)

lemma captureElementAsScreenshot_tainted:
  "img_tainted img \<Longrightarrow> fst (captureElementAsScreenshot img) = Inl SecurityError"
  by (simp add: captureElementAsScreenshot_def toDataURL_def)

lemma securityFallback_steps:
  "snd (securityFallback img steps) = steps \<or>
   snd (securityFallback img steps) = steps @ snd (captureElementAsScreenshot img)"
  by (cases "captureElementAsScreenshot img"; cases "fst (captureElementAsScreenshot img)")
    (simp_all add: securityFallback_def)

lemma captureImgElement_steps:
  assumes "waitForImageLoad img = (Inr img', steps)"
  shows "snd (captureImgElement img) = steps \<or>
         snd (captureImgElement img) = steps @ [Drawn (drawWidth img') (drawHeight img')] \<or>
         snd (captureImgElement img) =
           (steps @ [Drawn (drawWidth img') (drawHeight img')]) @ snd (captureElementAsScreenshot img')"
proof (cases "drawWidth img' = 0 \<or> drawHeight img' = 0")
  case True
  with assms show ?thesis by (simp add: captureImgElement_def)
next
  case False
  note fb = securityFallback_steps [of img' "steps @ [Drawn (drawWidth img') (drawHeight img')]"]
  show ?thesis
  proof (cases "toDataURL (drawWidth img') (drawHeight img') img'")
    case (Inl e)
    with assms False fb show ?thesis by (simp add: captureImgElement_def)
  next
    case r: (Inr p)
    with assms False fb show ?thesis by (cases p) (simp_all add: captureImgElement_def)
  qed
qed

lemma captureImgElement_no_request:
  "\<forall>s \<in> set (snd (captureImgElement img)). \<not> isNetworkRequest s \<and> (\<forall>d. s = Waited d \<longrightarrow> d \<le> 5000)"
proof -
  obtain r steps where w: "waitForImageLoad img = (r, steps)" by (cases "waitForImageLoad img")
  with waitForImageLoad_steps [of img]
  have ws: "\<forall>s \<in> set steps. \<not> isNetworkRequest s \<and> (\<forall>d. s = Waited d \<longrightarrow> d \<le> 5000)" by simp
  show ?thesis
  proof (cases r)
    case (Inl e)
    with w ws show ?thesis by (simp add: captureImgElement_def)
  next
    case (Inr img')
    have d: "\<not> isNetworkRequest (Drawn (drawWidth img') (drawHeight img'))"
      by (simp add: isNetworkRequest_def)
    from captureImgElement_steps [OF w [unfolded Inr]] ws d captureElementAsScreenshot_steps [of img']
    show ?thesis by fastforce
  qed
qed

lemma captureImgElement_tainted:
  assumes "waitForImageLoad img = (Inr img', steps)" and "img_tainted img"
    and "drawWidth img' \<noteq> 0" and "drawHeight img' \<noteq> 0"
  shows "fst (captureImgElement img) =
     (if startsWith (img_src img) ''data:'' then Inr (Verbatim (img_src img)) else Inl CrossOriginCapture)"
proof -
  from waitForImageLoad_keeps [OF assms(1)] assms(2)
  have k: "img_src img' = img_src img" "img_tainted img'" by simp_all
  obtain q extra where c: "captureElementAsScreenshot img' = (q, extra)"
    by (cases "captureElementAsScreenshot img'")
  with captureElementAsScreenshot_tainted [OF k(2)] have q: "q = Inl SecurityError" by simp
  from assms(1,3,4) k c q show ?thesis
    by (simp add: captureImgElement_def securityFallback_def toDataURL_def)
qed

lemma module_captureImgElement_requests:
  "\<not> startsWith (img_src img) ''data:'' \<Longrightarrow>
   NetworkRequest (srcWithTimestamp (img_src img) stamp) \<in> set (snd (module_captureImgElement img stamp answer))"
  by (simp add: module_captureImgElement_def Let_def split: refetch.splits sum.splits)


end
